theory Spec2Isabelle
  imports Main "HOL-Library.Multiset"
begin

section \<open>JavaScript values as the code uses them\<close>

text \<open>
  Strings are lists of characters; every character stands for one code unit below 256.
  An optional value (\<open>undefined\<close> in the source) is \<open>None\<close>.  A string is truthy when it is
  not empty, a number when it is not zero.
\<close>

definition truthy :: "string option \<Rightarrow> bool" where
  "truthy v = (case v of None \<Rightarrow> False | Some s \<Rightarrow> s \<noteq> [])"

definition truthyNum :: "nat option \<Rightarrow> bool" where
  "truthyNum v = (case v of None \<Rightarrow> False | Some n \<Rightarrow> n \<noteq> 0)"

definition isDigit :: "char \<Rightarrow> bool" where
  "isDigit c = (c \<in> set ''0123456789'')"

text \<open>The class \<open>\s\<close> of a regular expression, on code units below 256.\<close>

definition isSpace :: "char \<Rightarrow> bool" where
  "isSpace c = (c \<in> set [CHR 0x09, CHR 0x0A, CHR 0x0B, CHR 0x0C, CHR 0x0D, CHR 0x20, CHR 0xA0])"

text \<open>Canonical form of a character under the \<open>i\<close> flag: only ASCII letters change.\<close>

definition upperAscii :: "char \<Rightarrow> char" where
  "upperAscii c =
     (case map_of (zip ''abcdefghijklmnopqrstuvwxyz'' ''ABCDEFGHIJKLMNOPQRSTUVWXYZ'') c of
        Some u \<Rightarrow> u
      | None \<Rightarrow> c)"

definition digitChar :: "nat \<Rightarrow> char" where
  "digitChar d = ''0123456789'' ! d"

text \<open>\<open>String(n)\<close> for a non-negative integer.\<close>

fun showNat :: "nat \<Rightarrow> string" where
  "showNat n = (if n < 10 then [digitChar n] else showNat (n div 10) @ [digitChar (n mod 10)])"

text \<open>
  \<open>Number(s)\<close> on a string of decimal digits (the empty string gives 0).  Any other string
  is mapped to \<open>None\<close>, which stands for \<open>NaN\<close>; values stay exact (below \<open>2^53\<close> in the source).
\<close>

definition digitValue :: "char \<Rightarrow> nat" where
  "digitValue c = length (takeWhile (\<lambda>d. d \<noteq> c) ''0123456789'')"

definition decimalValue :: "string \<Rightarrow> nat" where
  "decimalValue ds = foldl (\<lambda>a c. 10 * a + digitValue c) 0 ds"

definition Number :: "string \<Rightarrow> nat option" where
  "Number s = (if list_all isDigit s then Some (decimalValue s) else None)"

definition newline :: char where
  "newline = CHR 0x0A"

text \<open>\<open>s.split('\n')\<close>.\<close>

fun splitLines :: "string \<Rightarrow> string list" where
  "splitLines [] = [[]]"
| "splitLines (c # cs) =
     (if c = newline then [] # splitLines cs
      else (case splitLines cs of [] \<Rightarrow> [[c]] | l # ls \<Rightarrow> (c # l) # ls))"

text \<open>\<open>s.includes(t)\<close>, also the truth value of \<open>s.match(t)\<close> for a pattern of plain letters.\<close>

fun strIncludes :: "string \<Rightarrow> string \<Rightarrow> bool" where
  "strIncludes [] t = (t = [])"
| "strIncludes (c # cs) t = (take (length t) (c # cs) = t \<or> strIncludes cs t)"

text \<open>
  The expansion of a replacement string (\<open>GetSubstitution\<close>) for a pattern without capture
  groups: \<open>$$\<close>, \<open>$&\<close>, the text before the match and the text after it.
\<close>

fun getSubstitution :: "string \<Rightarrow> string \<Rightarrow> string \<Rightarrow> string \<Rightarrow> string" where
  "getSubstitution matched pre post [] = []"
| "getSubstitution matched pre post [c] = [c]"
| "getSubstitution matched pre post (c # d # r) =
     (if c = CHR ''$'' \<and> d = CHR ''$'' then CHR ''$'' # getSubstitution matched pre post r
      else if c = CHR ''$'' \<and> d = CHR ''&'' then matched @ getSubstitution matched pre post r
      else if c = CHR ''$'' \<and> d = CHR 0x60 then pre @ getSubstitution matched pre post r
      else if c = CHR ''$'' \<and> d = CHR 0x27 then post @ getSubstitution matched pre post r
      else c # getSubstitution matched pre post (d # r))"

text \<open>
  \<open>s.replace(new RegExp(pat, 'g'), repl)\<close> for a pattern \<open>pat\<close> of plain characters.  The first
  argument is the text already passed, the counter skips the rest of a match.
\<close>

fun replaceAll :: "string \<Rightarrow> string \<Rightarrow> string \<Rightarrow> nat \<Rightarrow> string \<Rightarrow> string" where
  "replaceAll pat repl pre k [] = []"
| "replaceAll pat repl pre (Suc k) (c # cs) = replaceAll pat repl (pre @ [c]) k cs"
| "replaceAll pat repl pre 0 (c # cs) =
     (if pat \<noteq> [] \<and> take (length pat) (c # cs) = pat
      then getSubstitution pat pre (drop (length pat) (c # cs)) repl
           @ replaceAll pat repl (pre @ [c]) (length pat - 1) cs
      else c # replaceAll pat repl (pre @ [c]) 0 cs)"

text \<open>\<open>s.replace(pat, repl)\<close> for a string pattern: the first occurrence only.\<close>

fun replaceFirst :: "string \<Rightarrow> string \<Rightarrow> string \<Rightarrow> string \<Rightarrow> string" where
  "replaceFirst pat repl pre [] = (if pat = [] then getSubstitution pat pre [] repl else [])"
| "replaceFirst pat repl pre (c # cs) =
     (if take (length pat) (c # cs) = pat
      then getSubstitution pat pre (drop (length pat) (c # cs)) repl
           @ drop (length pat) (c # cs)
      else c # replaceFirst pat repl (pre @ [c]) cs)"

section \<open>The issue-closing pattern of the released plugin\<close>

text \<open>
  \<open>closeIssue = /(?:Close|Closes|Closed|Fix|Fixes|Fixed|Resolve|Resolves|Resolved)\s((?:#\d+(?:,\s)?)+)/gi\<close>
\<close>

definition closeKeywords :: "string list" where
  "closeKeywords =
     [''Close'', ''Closes'', ''Closed'', ''Fix'', ''Fixes'', ''Fixed'',
      ''Resolve'', ''Resolves'', ''Resolved'']"

text \<open>One round of \<open>#\d+(?:,\s)?\<close> at the start of the string: the text it matches.\<close>

definition refItem :: "string \<Rightarrow> string option" where
  "refItem s =
     (case s of
        [] \<Rightarrow> None
      | c # cs \<Rightarrow>
          if c = CHR ''#'' \<and> takeWhile isDigit cs \<noteq> [] then
            (case dropWhile isDigit cs of
               a # b # _ \<Rightarrow>
                 if a = CHR '','' \<and> isSpace b then Some (c # takeWhile isDigit cs @ [a, b])
                 else Some (c # takeWhile isDigit cs)
             | _ \<Rightarrow> Some (c # takeWhile isDigit cs))
          else None)"

text \<open>
  \<open>(?:#\d+(?:,\s)?)+\<close>, greedy, at the start of the string: the text it matches, empty when
  there is no first round.  The counter copies the rest of the round in progress.
\<close>

fun refItems :: "nat \<Rightarrow> string \<Rightarrow> string" where
  "refItems k [] = []"
| "refItems (Suc k) (c # cs) = c # refItems k cs"
| "refItems 0 (c # cs) =
     (case refItem (c # cs) of
        None \<Rightarrow> []
      | Some m \<Rightarrow> c # refItems (length m - 1) cs)"

text \<open>
  A keyword at the start of the string, letter by letter, whatever the case: the rest of
  the string when the keyword is there.
\<close>

fun matchKeyword :: "string \<Rightarrow> string \<Rightarrow> string option" where
  "matchKeyword [] s = Some s"
| "matchKeyword (k # ks) [] = None"
| "matchKeyword (k # ks) (c # cs) =
     (if upperAscii c = upperAscii k then matchKeyword ks cs else None)"

text \<open>One alternative of the keyword group, then \<open>\s\<close>, then the references.\<close>

definition tryKeyword :: "string \<Rightarrow> string \<Rightarrow> string option" where
  "tryKeyword kw s =
     (case matchKeyword kw s of
        None \<Rightarrow> None
      | Some [] \<Rightarrow> None
      | Some (sp # rs) \<Rightarrow>
          if isSpace sp \<and> refItems 0 rs \<noteq> []
          then Some (take (length kw) s @ sp # refItems 0 rs)
          else None)"

text \<open>The pattern at the start of the string: the alternatives are tried in their order.\<close>

definition closeIssueAt :: "string \<Rightarrow> string option" where
  "closeIssueAt s =
     (case List.map_filter (\<lambda>kw. tryKeyword kw s) closeKeywords of
        [] \<Rightarrow> None
      | m # _ \<Rightarrow> Some m)"

text \<open>
  \<open>message.match(closeIssue)\<close>: every match, left to right, each search starting where the
  last match ended (\<open>null\<close> is the empty list here).
\<close>

fun matchCloseIssue :: "nat \<Rightarrow> string \<Rightarrow> string list" where
  "matchCloseIssue k [] = []"
| "matchCloseIssue (Suc k) (c # cs) = matchCloseIssue k cs"
| "matchCloseIssue 0 (c # cs) =
     (case closeIssueAt (c # cs) of
        None \<Rightarrow> matchCloseIssue 0 cs
      | Some m \<Rightarrow> m # matchCloseIssue (length m - 1) cs)"

text \<open>\<open>issue.match(/#(\d+)/i)\<close>: the digits of the first reference in the string.\<close>

fun matchIssueNumber :: "string \<Rightarrow> string option" where
  "matchIssueNumber [] = None"
| "matchIssueNumber (c # cs) =
     (if c = CHR ''#'' \<and> takeWhile isDigit cs \<noteq> [] then Some (takeWhile isDigit cs)
      else matchIssueNumber cs)"

text \<open>The issue numbers \<open>addReleased\<close> collects from its messages.\<close>

definition collectIssues :: "string list \<Rightarrow> nat list" where
  "collectIssues messages =
     map decimalValue
       (List.map_filter matchIssueNumber (concat (map (matchCloseIssue 0) messages)))"

section \<open>Data of the engine\<close>

text \<open>A commit as the log parser hands it over (\<open>IExtendedCommit\<close>).\<close>

record commit =
  hash :: string
  subject :: string
  labels :: "string list"
  pullRequest :: "nat option"

text \<open>The user configuration (\<open>IAutoConfig\<close>): the fields the code reads.\<close>

datatype plugin_entry = PluginName string | PluginWithOptions string string

record config =
  cfg_labels :: "string \<rightharpoonup> string \<times> string"
  cfg_plugins :: "plugin_entry list option"
  cfg_owner :: "string option"
  cfg_repo :: "string option"
  cfg_token :: "string option"
  cfg_baseBranch :: string

text \<open>What a canary handler returns: the published identifier or \<open>{ error }\<close>.\<close>

datatype canary_result = Published string | Failure string

text \<open>
  The hook points whose handlers the engine depends on keep their taps, in registration
  order, each with its owner's name.  Handlers of the other hook points are opaque: a
  firing of such a point is one event.
\<close>

record hooks =
  modifyConfig :: "(string \<times> (config \<Rightarrow> config)) list"
  beforeRun :: "string list"
  afterRelease :: "string list"
  canaryTaps :: "(string \<times> (string \<Rightarrow> string \<Rightarrow> canary_result option)) list"
  getPreviousVersion :: "(string \<times> ((string \<Rightarrow> string) \<Rightarrow> string option)) list"
  getRepository :: "(string \<times> (string \<times> string \<times> string option) option) list"
  getAuthor :: "(string \<times> (string option \<times> string option) option) list"

record plugin =
  plugin_name :: string
  plugin_apply :: "hooks \<Rightarrow> hooks"

record changelog_lifecycle =
  cl_bump :: string
  cl_commits :: "commit list"
  cl_releaseNotes :: string
  cl_currentVersion :: string
  cl_lastRelease :: string

record after_release =
  ar_lastRelease :: string
  ar_newVersion :: "string option"
  ar_commits :: "commit list"
  ar_releaseNotes :: string
  ar_response :: "string option"

section \<open>Events: every call the engine makes to a collaborator\<close>

datatype level = LogError | LogWarn | LogInfo | LogSuccess | LogNote

datatype hook_call =
    ModifyConfig
  | BeforeRun
  | BeforeShipIt
  | OnCreateRelease
  | GetRepository
  | GetAuthor
  | GetPreviousVersion
  | BeforeCommitChangelog changelog_lifecycle
  | AfterAddToChangelog changelog_lifecycle
  | Version string
  | AfterVersion
  | Publish string
  | AfterPublish
  | Canary string string
  | AfterRelease after_release
  | AfterShipIt "string option" "commit list"

datatype git_call =
    GetLatestRelease
  | GetSha bool
  | GetLatestTagInBranch
  | GetFirstCommit
  | PublishRelease string string
  | GetPullRequest nat
  | GetCommitsForPR nat
  | GetLabels nat
  | AddLabelToPr nat string
  | LockIssue nat
  | CreateComment string nat string
  | EditComment string nat string
  | DeleteComment nat string
  | AddToPrBody string nat string

datatype release_call =
    GetCommitsInRelease string "string option"
  | GetCommits string
  | GetSemverBump string "string option"
  | GenerateReleaseNotes string "string option" "string option"
  | AddToChangelog string string string

text \<open>
  \<open>Log\<close> is a call of \<open>logger.log\<close>, \<open>ConsoleLog\<close> of \<open>console.log\<close>, \<open>Hook\<close> the firing of a
  hook point, \<open>Handler\<close> the run of one tapped handler of a synchronous point, \<open>Git\<close> and
  \<open>Release\<close> the calls of the git client and of the release helper, \<open>Exec\<close> a shell command,
  \<open>LoadConfig\<close> the read of the configuration file and \<open>PluginApply\<close> a plugin's \<open>apply\<close>.
  The verbose channels of the logger are not recorded.
\<close>

datatype event =
    Log level string
  | ConsoleLog string
  | Hook hook_call
  | Handler hook_call string
  | Git git_call
  | Release release_call
  | Exec string "string list"
  | LoadConfig
  | PluginApply string

section \<open>The collaborators' answers\<close>

text \<open>What \<open>env-ci\<close> reports: for each key whether it is present, and its value.\<close>

record ci_env =
  env_pr :: "string option option"
  env_build :: "string option option"
  env_commit :: "string option option"
  env_isPr :: bool
  env_branch :: "string option option"
  env_isCi :: bool

text \<open>
  The answers of the git client (\<open>./git\<close>).  \<open>getLatestTagInBranch\<close> is \<open>None\<close> when the call
  throws, as it does when the branch has no tag.
\<close>

record git_client =
  getLatestRelease :: string
  getSha :: "bool \<Rightarrow> string"
  getLatestTagInBranch :: "string option"
  getFirstCommit :: string
  getPullRequestBody :: "nat \<Rightarrow> string"
  getCommitsForPR :: "nat \<Rightarrow> string list"
  publish :: "string \<Rightarrow> string \<Rightarrow> string"

text \<open>
  The answers of the release helper (\<open>./release\<close>) with its options, and of
  \<open>calculateSemVerBump\<close> (\<open>./semver\<close>).
\<close>

record release_helper =
  getCommitsInRelease :: "string \<Rightarrow> string option \<Rightarrow> commit list"
  getCommits :: "string \<Rightarrow> commit list"
  getSemverBump :: "string \<Rightarrow> string option \<Rightarrow> string"
  generateReleaseNotes :: "string \<Rightarrow> string option \<Rightarrow> string option \<Rightarrow> string"
  calculateSemVerBump :: "string list list \<Rightarrow> config option \<Rightarrow> string"
  noVersionPrefix :: bool
  skipReleaseLabels :: "string list"
  opt_email :: "string option"
  opt_name :: "string option"

text \<open>The functions of the \<open>semver\<close> package the engine calls.\<close>

record semver_lib =
  parse :: "string \<Rightarrow> bool"
  eq :: "string \<Rightarrow> string \<Rightarrow> bool"
  gt :: "string \<Rightarrow> string \<Rightarrow> bool"
  inc :: "string \<Rightarrow> string \<Rightarrow> string"

text \<open>
  Everything a run reads from outside of the \<open>Auto\<close> object.  An answer is the same
  whenever it is asked for during a run; only the labels on the hosting platform are state.
  \<open>options_dryRun\<close> is \<open>auto.options.dryRun\<close>, the flag the plugins read;
  \<open>gitUserEmailSet\<close> and \<open>gitUserNameSet\<close> say whether the two reads of \<open>git config\<close>
  succeed; \<open>loadedConfig\<close> is the answer of the loader of \<open>./config\<close>, \<open>loadPlugin\<close> the one
  of \<open>./utils/load-plugins\<close>, and \<open>isPkg\<close> is \<open>process.pkg\<close>.
\<close>

record env =
  ci :: ci_env
  gitClient :: git_client
  releaseHelper :: release_helper
  semver :: semver_lib
  options_dryRun :: bool
  baseBranch :: string
  GH_TOKEN :: "string option"
  gitUserEmailSet :: bool
  gitUserNameSet :: bool
  loadedConfig :: config
  loadPlugin :: "string \<times> string \<Rightarrow> plugin option"
  isPkg :: bool

section \<open>The state of a run\<close>

text \<open>
  The \<open>Auto\<close> object (\<open>git\<close> and \<open>release\<close> are set by \<open>loadConfig\<close>), the labels on the
  hosting platform and the events so far.
\<close>

record world =
  hasGit :: bool
  hasRelease :: bool
  theConfig :: "config option"
  versionBump :: "string option"
  theHooks :: hooks
  labelsOn :: "nat \<Rightarrow> string list"
  events :: "event list"

text \<open>An exception, or \<open>process.exit\<close>.\<close>

datatype error = Thrown string | ProcessExit nat

type_synonym 'a action = "world \<Rightarrow> (error + 'a) \<times> world"

definition ret :: "'a \<Rightarrow> 'a action" where
  "ret x s = (Inr x, s)"

definition throw :: "string \<Rightarrow> 'a action" where
  "throw m s = (Inl (Thrown m), s)"

definition exitProcess :: "nat \<Rightarrow> 'a action" where
  "exitProcess n s = (Inl (ProcessExit n), s)"

definition emit :: "event \<Rightarrow> unit action" where
  "emit e s = (Inr (), s\<lparr>events := events s @ [e]\<rparr>)"

text \<open>\<open>await m\<close> and go on with its value; an error ends the sequence.\<close>

definition andThen :: "'a action \<Rightarrow> ('a \<Rightarrow> 'b action) \<Rightarrow> 'b action" where
  "andThen m f s = (case m s of (Inl e, s') \<Rightarrow> (Inl e, s') | (Inr x, s') \<Rightarrow> f x s')"

definition seq :: "unit action \<Rightarrow> 'b action \<Rightarrow> 'b action" where
  "seq m k = andThen m (\<lambda>_. k)"

text \<open>Reading the state (a field of \<open>this\<close>), and changing it.\<close>

definition withState :: "(world \<Rightarrow> 'a action) \<Rightarrow> 'a action" where
  "withState f s = f s s"

definition modify :: "(world \<Rightarrow> world) \<Rightarrow> unit action" where
  "modify g s = (Inr (), g s)"

section \<open>Calls that are pending at the same time\<close>

text \<open>
  The commands of the engine await one call at a time, so a run of theirs is a sequence
  and an \<open>action\<close> describes it.  The released plugin starts several calls and awaits them
  together; between two points of suspension of one call the others may go on.  A pending
  call is then a value of its own: \<open>Awaiting ps k\<close> waits for the calls \<open>ps\<close> it has started
  and goes on with \<open>k\<close> once they are settled; \<open>Awaiting [] k\<close> waits for the platform to
  answer.  A call of an \<open>async\<close> function runs up to its first suspension and hands back
  what is pending.
\<close>

datatype promise =
    Resolved
  | Rejected error
  | Awaiting "promise list" "world \<Rightarrow> promise \<times> world"

type_synonym async = "world \<Rightarrow> promise \<times> world"

text \<open>\<open>return\<close> at the end of an \<open>async\<close> function.\<close>

definition resolved :: async where
  "resolved s = (Resolved, s)"

text \<open>Code without suspension, and then the rest of the function; an error rejects.\<close>

definition doing :: "'a action \<Rightarrow> ('a \<Rightarrow> async) \<Rightarrow> async" where
  "doing m k s = (case m s of (Inl err, s') \<Rightarrow> (Rejected err, s') | (Inr x, s') \<Rightarrow> k x s')"

definition finish :: "unit action \<Rightarrow> async" where
  "finish m = doing m (\<lambda>_. resolved)"

text \<open>
  \<open>await m\<close> and then \<open>k\<close>: the call \<open>m\<close> is started at once, the function is suspended, and
  \<open>k\<close> runs in a later turn, once \<open>m\<close> is settled (also when \<open>m\<close> was settled at once).
\<close>

definition await :: "async \<Rightarrow> async \<Rightarrow> async" where
  "await m k s = (case m s of (p, s') \<Rightarrow> (Awaiting [p] k, s'))"

text \<open>
  \<open>await Promise.all(ms)\<close> and then \<open>k\<close>: the calls are started one after the other, each up
  to its first suspension, before any of them goes on.
\<close>

fun startAll :: "async list \<Rightarrow> world \<Rightarrow> promise list \<times> world" where
  "startAll [] s = ([], s)"
| "startAll (m # ms) s =
     (case m s of (p, s') \<Rightarrow> (case startAll ms s' of (ps, s'') \<Rightarrow> (p # ps, s'')))"

definition awaitAll :: "async list \<Rightarrow> async \<Rightarrow> async" where
  "awaitAll ms k s = (case startAll ms s of (ps, s') \<Rightarrow> (Awaiting ps k, s'))"

text \<open>\<open>await Promise.all(xs.map(f))\<close> as the last statement of a function.\<close>

definition promiseAll :: "('a \<Rightarrow> async) \<Rightarrow> 'a list \<Rightarrow> async" where
  "promiseAll f xs = awaitAll (map f xs) resolved"

text \<open>
  A call of the hosting platform: the request is sent at once (the event), the platform
  handles it in a later turn (the effect, and the answer it reads), and the caller goes on
  in a turn after that.
\<close>

definition request :: "event \<Rightarrow> (world \<Rightarrow> world) \<Rightarrow> async" where
  "request ev effect s =
     (Awaiting [] (\<lambda>s'. (Resolved, effect s')), s\<lparr>events := events s @ [ev]\<rparr>)"

definition awaitAnswer :: "event \<Rightarrow> (world \<Rightarrow> 'r) \<Rightarrow> ('r \<Rightarrow> async) \<Rightarrow> async" where
  "awaitAnswer ev answer k s =
     (Awaiting [] (\<lambda>s'. (Awaiting [] (k (answer s')), s')), s\<lparr>events := events s @ [ev]\<rparr>)"

text \<open>
  Which pending calls can go on: the ones whose awaited calls are all settled.  A position
  in the tree of pending calls is the list of the indices that lead to it.
\<close>

fun settled :: "promise \<Rightarrow> bool" where
  "settled (Awaiting ps k) = False"
| "settled p = True"

fun firstRejection :: "promise list \<Rightarrow> error option" where
  "firstRejection [] = None"
| "firstRejection (Rejected err # ps) = Some err"
| "firstRejection (p # ps) = firstRejection ps"

primrec ready :: "promise \<Rightarrow> nat list list" where
  "ready Resolved = []"
| "ready (Rejected err) = []"
| "ready (Awaiting ps k) =
     (if list_all settled ps then [[]]
      else concat (map (\<lambda>(i, paths). map ((#) i) paths)
                       (zip [0..<length ps] (map ready ps))))"

text \<open>
  One turn of the call at a position: it goes on with its continuation, or is rejected
  when a call it awaited was.  (\<open>Promise.all\<close> rejects at the first rejection; here the
  rejection shows once every call is settled, and the calls go on in between all the same.)
\<close>

fun resumeAt :: "nat list \<Rightarrow> promise \<Rightarrow> world \<Rightarrow> promise \<times> world" where
  "resumeAt [] (Awaiting ps k) s =
     (if list_all settled ps then
        (case firstRejection ps of Some err \<Rightarrow> (Rejected err, s) | None \<Rightarrow> k s)
      else (Awaiting ps k, s))"
| "resumeAt (i # path) (Awaiting ps k) s =
     (if i < length ps then
        (case resumeAt path (ps ! i) s of (p, s') \<Rightarrow> (Awaiting (ps[i := p]) k, s'))
      else (Awaiting ps k, s))"
| "resumeAt path p s = (p, s)"

text \<open>
  The order in which the pending calls go on is not the program's to choose: it is a list
  of picks, the pick \<open>n\<close> standing for the \<open>n\<close>-th call that can go on (counted round).  A
  statement about the code holds for every such list.
\<close>

definition resume :: "nat \<Rightarrow> promise \<Rightarrow> world \<Rightarrow> promise \<times> world" where
  "resume n p s =
     (case ready p of
        [] \<Rightarrow> (p, s)
      | path # paths \<Rightarrow> resumeAt ((path # paths) ! (n mod length (path # paths))) p s)"

fun run :: "nat list \<Rightarrow> promise \<Rightarrow> world \<Rightarrow> promise \<times> world" where
  "run [] p s = (p, s)"
| "run (n # ns) p s = (case resume n p s of (p', s') \<Rightarrow> run ns p' s')"

definition runAsync :: "nat list \<Rightarrow> async \<Rightarrow> world \<Rightarrow> promise \<times> world" where
  "runAsync ns m s = (case m s of (p, s') \<Rightarrow> run ns p s')"

section \<open>The engine: comments\<close>

definition dq :: string where
  "dq = [CHR 0x22]"

text \<open>A value inside a template string: \<open>undefined\<close> prints its name.\<close>

definition strOf :: "string option \<Rightarrow> string" where
  "strOf v = (case v of None \<Rightarrow> ''undefined'' | Some s \<Rightarrow> s)"

definition createErrorMessage :: string where
  "createErrorMessage = ''Auto is not initialized! Make sure the have run Auto.loadConfig''"

text \<open>\<open>'pr' in env && Number(env.pr)\<close>, then \<open>pr || envPr\<close>.\<close>

definition getPrNumberFromEnv :: "ci_env \<Rightarrow> nat option \<Rightarrow> nat option" where
  "getPrNumberFromEnv e pr =
     (let envPr = (case env_pr e of
                     None \<Rightarrow> None
                   | Some None \<Rightarrow> None
                   | Some (Some v) \<Rightarrow> Number v)
      in if truthyNum pr then pr else envPr)"

definition getPrNumber :: "ci_env \<Rightarrow> string \<Rightarrow> nat option \<Rightarrow> nat action" where
  "getPrNumber e command pr =
     (case getPrNumberFromEnv e pr of
        None \<Rightarrow>
          throw (''Could not detect PR number. '' @ command
                 @ '' must be run from either a PR or have the PR number supplied via the --pr flag.'')
      | Some n \<Rightarrow>
          if n = 0 then
            throw (''Could not detect PR number. '' @ command
                   @ '' must be run from either a PR or have the PR number supplied via the --pr flag.'')
          else ret n)"

record comment_options =
  c_message :: "string option"
  c_pr :: "nat option"
  c_context :: "string option"
  c_dryRun :: bool
  c_delete :: bool
  c_edit :: bool

definition contextOf :: "comment_options \<Rightarrow> string" where
  "contextOf options = (case c_context options of None \<Rightarrow> ''default'' | Some c \<Rightarrow> c)"

text \<open>
  \<open>comment\<close> is also called by the released plugin, several calls at a time; it is
  suspended at each call of the platform.
\<close>

definition comment :: "env \<Rightarrow> comment_options \<Rightarrow> async" where
  "comment e options =
     doing (withState (\<lambda>s. if \<not> hasGit s then throw createErrorMessage
                            else getPrNumber (ci e) ''comment'' (c_pr options)))
       (\<lambda>prNumber.
          if c_dryRun options then
            finish
              (if c_delete options then
                 emit (Log LogInfo (''Would have deleted comment on '' @ showNat prNumber
                   @ '' under '' @ dq @ contextOf options @ dq @ '' context''))
               else if c_edit options then
                 emit (Log LogInfo (''Would have edited the comment on '' @ showNat prNumber
                   @ '' under '' @ dq @ contextOf options @ dq @ '' context.''
                   @ [newline, newline] @ ''New message: '' @ strOf (c_message options)))
               else
                 emit (Log LogInfo (''Would have commented on '' @ showNat prNumber
                   @ '' under '' @ dq @ contextOf options @ dq @ '' context:''
                   @ [newline, newline] @ strOf (c_message options))))
          else if c_edit options \<and> truthy (c_message options) then
            await (request (Git (EditComment (strOf (c_message options)) prNumber
                                   (contextOf options))) id)
                  (finish (emit (Log LogSuccess (''Edited comment on PR #'' @ showNat prNumber
                     @ '' under context '' @ dq @ contextOf options @ dq))))
          else
            (let create =
                   (if truthy (c_message options) then
                      await (request (Git (CreateComment (strOf (c_message options)) prNumber
                                             (contextOf options))) id)
                            (finish (emit (Log LogSuccess
                               (''Commented on PR #'' @ showNat prNumber))))
                    else resolved)
             in if c_delete options then
                  await (request (Git (DeleteComment prNumber (contextOf options))) id)
                        (doing (emit (Log LogSuccess (''Deleted comment on PR #''
                                  @ showNat prNumber @ '' under context '' @ dq
                                  @ contextOf options @ dq)))
                               (\<lambda>_. create))
                else create))"

definition prBody :: "env \<Rightarrow> comment_options \<Rightarrow> unit action" where
  "prBody e options =
     withState (\<lambda>s. if \<not> hasGit s then throw createErrorMessage
           else andThen (getPrNumber (ci e) ''pr-body'' (c_pr options)) (\<lambda>prNumber.
             if c_dryRun options then
               (if c_delete options then
                  emit (Log LogInfo (''Would have deleted PR body on '' @ showNat prNumber
                    @ '' under '' @ dq @ contextOf options @ dq @ '' context''))
                else
                  emit (Log LogInfo (''Would have appended to PR body on '' @ showNat prNumber
                    @ '' under '' @ dq @ contextOf options @ dq @ '' context:''
                    @ [newline, newline] @ strOf (c_message options))))
             else
               seq (if c_delete options then
                      emit (Git (AddToPrBody [] prNumber (contextOf options)))
                    else ret ())
              (seq (if truthy (c_message options) then
                      emit (Git (AddToPrBody (strOf (c_message options)) prNumber
                                   (contextOf options)))
                    else ret ())
                   (emit (Log LogSuccess (''Updated body on PR #'' @ showNat prNumber))))))"

section \<open>The released plugin\<close>

record released_options =
  message :: string
  label :: string
  lockIssues :: bool

definition defaultOptions :: released_options where
  "defaultOptions =
     \<lparr>message = '':rocket: %TYPE was released in %VERSION :rocket:'',
      label = ''released'',
      lockIssues = False\<rparr>"

text \<open>\<open>version.match('canary')\<close>\<close>

definition isCanary :: "string \<Rightarrow> bool" where
  "isCanary version = strIncludes version ''canary''"

definition createReleasedComment :: "released_options \<Rightarrow> bool \<Rightarrow> string \<Rightarrow> string" where
  "createReleasedComment options isIssue version =
     replaceAll ''%VERSION'' version [] 0
       (replaceAll ''%TYPE'' (if isIssue then ''Issue'' else ''PR'') [] 0 (message options))"

text \<open>
  Modelled from the spec: the hosting client's \<open>getLabels(number)\<close> and \<open>addLabel(number,
  label)\<close> (\<open>git.getLabels\<close> and \<open>git.addLabelToPr\<close> of \<open>./git\<close>, which is not among the
  sources).  The platform keeps the labels of a target as a list, so that a label added
  twice would show.  \<open>getLabels\<close> is given the rest of its caller, which gets the answer.
\<close>

definition getLabels :: "nat \<Rightarrow> (string list \<Rightarrow> async) \<Rightarrow> async" where
  "getLabels n k = awaitAnswer (Git (GetLabels n)) (\<lambda>s. labelsOn s n) k"

definition addLabelToPr :: "nat \<Rightarrow> string \<Rightarrow> async" where
  "addLabelToPr n l =
     request (Git (AddLabelToPr n l))
       (\<lambda>s. s\<lparr>labelsOn := (labelsOn s)(n := labelsOn s n @ [l])\<rparr>)"

text \<open>Lines 144 to 149: read the labels of the target, add the label when it is not there.\<close>

definition addLabelIfAbsent :: "nat \<Rightarrow> string \<Rightarrow> async" where
  "addLabelIfAbsent prOrIssue l =
     getLabels prOrIssue (\<lambda>labels.
       if l \<notin> set labels then await (addLabelToPr prOrIssue l) resolved else resolved)"

definition releasedComment :: "released_options \<Rightarrow> string \<Rightarrow> nat \<Rightarrow> bool \<Rightarrow> comment_options" where
  "releasedComment options newVersion prOrIssue isIssue =
     \<lparr>c_message = Some (createReleasedComment options isIssue newVersion),
      c_pr = Some prOrIssue, c_context = Some ''released'',
      c_dryRun = False, c_delete = False, c_edit = False\<rparr>"

definition addCommentAndLabel ::
  "env \<Rightarrow> released_options \<Rightarrow> string \<Rightarrow> nat \<Rightarrow> bool \<Rightarrow> async" where
  "addCommentAndLabel e options newVersion prOrIssue isIssue =
     await (comment e (releasedComment options newVersion prOrIssue isIssue))
           (if isCanary newVersion then resolved
            else addLabelIfAbsent prOrIssue (label options))"

text \<open>The messages \<open>addReleased\<close> scans: the subject, the lines of the request's body and
  the messages of the request's commits.\<close>

definition releasedMessages :: "env \<Rightarrow> commit \<Rightarrow> string list" where
  "releasedMessages e commit =
     (case pullRequest commit of
        None \<Rightarrow> [subject commit]
      | Some number \<Rightarrow>
          [subject commit] @ splitLines (getPullRequestBody (gitClient e) number)
          @ getCommitsForPR (gitClient e) number)"

text \<open>The function mapped over the issues (lines 118 to 124).\<close>

definition commentAndLock :: "env \<Rightarrow> released_options \<Rightarrow> string \<Rightarrow> nat \<Rightarrow> async" where
  "commentAndLock e options newVersion issue =
     await (addCommentAndLabel e options newVersion issue True)
           (if lockIssues options \<and> \<not> isCanary newVersion
            then await (request (Git (LockIssue issue)) id) resolved
            else resolved)"

definition addReleased :: "env \<Rightarrow> released_options \<Rightarrow> string \<Rightarrow> commit \<Rightarrow> async" where
  "addReleased e options newVersion commit =
     (let issues = promiseAll (commentAndLock e options newVersion)
                     (collectIssues (releasedMessages e commit))
      in case pullRequest commit of
           None \<Rightarrow> issues
         | Some number \<Rightarrow>
             await (addCommentAndLabel e options newVersion number False)
            (await (request (Git (GetPullRequest number)) id)
            (await (request (Git (GetCommitsForPR number)) id)
                   issues)))"

text \<open>
  The handler the plugin taps on \<open>afterRelease\<close>.  The function mapped over the commits
  hands back the promise of \<open>addReleased\<close> as it is.
\<close>

definition releasedAfterRelease ::
  "env \<Rightarrow> released_options \<Rightarrow> after_release \<Rightarrow> async" where
  "releasedAfterRelease e options args =
     (case ar_newVersion args of
        None \<Rightarrow> resolved
      | Some newVersion \<Rightarrow>
          if newVersion = [] then resolved
          else if options_dryRun e then resolved
          else
            (case ar_commits args of
               [] \<Rightarrow> resolved
             | head # _ \<Rightarrow>
                 if truthy (find (\<lambda>l. l \<in> set (skipReleaseLabels (releaseHelper e))) (labels head))
                 then resolved
                 else promiseAll (addReleased e options newVersion) (ar_commits args)))"

text \<open>The handler the plugin taps on \<open>modifyConfig\<close>, and the plugin itself.\<close>

definition releasedModifyConfig :: "config \<Rightarrow> config" where
  "releasedModifyConfig c =
     c\<lparr>cfg_labels := (cfg_labels c)(''released'' \<mapsto>
          (case cfg_labels c ''released'' of
             Some d \<Rightarrow> d
           | None \<Rightarrow> (''released'', ''This issue/pull request has been released.'')))\<rparr>"

definition ReleasedLabelPlugin :: plugin where
  "ReleasedLabelPlugin =
     \<lparr>plugin_name = ''Released Label'',
      plugin_apply = (\<lambda>h. h\<lparr>modifyConfig := modifyConfig h @ [(''Released Label'', releasedModifyConfig)],
                             afterRelease := afterRelease h @ [''Released Label'']\<rparr>)\<rparr>"

section \<open>The engine: versions, changelog and release\<close>

record options =
  o_dryRun :: bool
  o_pr :: "nat option"
  o_build :: "nat option"
  o_message :: "string option"
  o_from :: "string option"
  o_to :: "string option"
  o_useVersion :: "string option"

text \<open>\<open>x || undefined\<close>\<close>

definition orUndefined :: "string option \<Rightarrow> string option" where
  "orUndefined v = (if truthy v then v else None)"

definition prefixRelease :: "release_helper \<Rightarrow> string \<Rightarrow> string" where
  "prefixRelease r release =
     (if noVersionPrefix r \<or> take 1 release = ''v'' then release else ''v'' @ release)"

text \<open>The result of a bail hook: the first defined result, or the given one when none is.\<close>

fun firstDefined :: "'a option list \<Rightarrow> 'a option \<Rightarrow> 'a option" where
  "firstDefined [] d = d"
| "firstDefined (Some v # rs) d = Some v"
| "firstDefined (None # rs) d = firstDefined rs d"

text \<open>
  \<open>getCurrentVersion\<close> taps a last handler named \<open>None\<close>, which answers the prefixed
  \<open>0.0.0\<close>, and then fires the bail hook; the result is an optional string all the same.
  Every caller has checked that the release helper exists, so \<open>prefixRelease\<close> does not throw.
\<close>

definition getCurrentVersion :: "env \<Rightarrow> string \<Rightarrow> (string option) action" where
  "getCurrentVersion e lastRelease =
     seq (modify (\<lambda>s. s\<lparr>theHooks := (theHooks s)\<lparr>getPreviousVersion :=
            getPreviousVersion (theHooks s)
            @ [(''None'', (\<lambda>_. Some (prefixRelease (releaseHelper e) ''0.0.0'')))]\<rparr>\<rparr>))
    (seq (emit (Hook GetPreviousVersion))
       (withState (\<lambda>s.
          case firstDefined
                 (map (\<lambda>tap. snd tap (prefixRelease (releaseHelper e)))
                      (getPreviousVersion (theHooks s))) None of
            None \<Rightarrow> ret None
          | Some lastVersion \<Rightarrow>
              if parse (semver e) lastRelease \<and> parse (semver e) lastVersion
                 \<and> gt (semver e) lastRelease lastVersion
              then ret (Some lastRelease)
              else ret (Some lastVersion))))"

text \<open>\<open>from || (await this.git.getLatestRelease())\<close>\<close>

definition fromOrLatestRelease :: "env \<Rightarrow> string option \<Rightarrow> string action" where
  "fromOrLatestRelease e from =
     (if truthy from then ret (strOf from)
      else seq (emit (Git GetLatestRelease)) (ret (getLatestRelease (gitClient e))))"

definition getVersion :: "env \<Rightarrow> string option \<Rightarrow> string action" where
  "getVersion e from =
     withState (\<lambda>s.
       if \<not> hasGit s \<or> \<not> hasRelease s then throw createErrorMessage
       else andThen (fromOrLatestRelease e from) (\<lambda>lastRelease.
              seq (emit (Release (GetSemverBump lastRelease None)))
             (seq (modify (\<lambda>s'. s'\<lparr>versionBump :=
                      Some (getSemverBump (releaseHelper e) lastRelease None)\<rparr>))
                  (ret (getSemverBump (releaseHelper e) lastRelease None)))))"

definition localGitNote :: string where
  "localGitNote =
     ''Detected local environment, will not set git user. This happens automatically in a CI environment.''
     @ [newline, newline] @ ''If a command fails manually run:'' @ [newline, newline]
     @ ''  - git config user.email your@email.com'' @ [newline]
     @ ''  - git config user.name '' @ dq @ ''Your Name'' @ dq"

text \<open>
  \<open>setGitUser\<close>: the two reads of the git identity; when one of them fails, in a CI
  environment, the identity is written from the options or from the \<open>getAuthor\<close> hook.
\<close>

definition setGitUser :: "env \<Rightarrow> unit action" where
  "setGitUser e =
     withState (\<lambda>s. andThen
        (seq (emit (Exec ''git'' [''config'', ''user.email'']))
             (if gitUserEmailSet e then
                seq (emit (Exec ''git'' [''config'', ''user.name''])) (ret (gitUserNameSet e))
              else ret False))
        (\<lambda>found.
           if found then ret ()
           else if \<not> env_isCi (ci e) then emit (Log LogNote localGitNote)
           else if \<not> hasRelease s then ret ()
           else
             seq (emit (Hook GetAuthor))
               (let packageAuthor = firstDefined (map snd (getAuthor (theHooks s))) None;
                    email = (if \<not> truthy (opt_email (releaseHelper e)) \<and> packageAuthor \<noteq> None
                             then (case packageAuthor of Some a \<Rightarrow> fst a | None \<Rightarrow> None)
                             else opt_email (releaseHelper e));
                    name = (if \<not> truthy (opt_name (releaseHelper e)) \<and> packageAuthor \<noteq> None
                            then (case packageAuthor of Some a \<Rightarrow> snd a | None \<Rightarrow> None)
                            else opt_name (releaseHelper e))
                in seq (if truthy email
                        then emit (Exec ''git'' [''config'', ''user.email'', dq @ strOf email @ dq])
                        else ret ())
                       (if truthy name
                        then emit (Exec ''git'' [''config'', ''user.name'', dq @ strOf name @ dq])
                        else ret ()))))"

definition changelogMessage :: "options \<Rightarrow> string" where
  "changelogMessage opts =
     (case o_message opts of None \<Rightarrow> ''Update CHANGELOG.md [skip ci]'' | Some m \<Rightarrow> m)"

text \<open>The part of \<open>makeChangelog\<close> after the dry-run return.\<close>

definition commitChangelog ::
  "env \<Rightarrow> options \<Rightarrow> string \<Rightarrow> string \<Rightarrow> string \<Rightarrow> unit action" where
  "commitChangelog e opts lastRelease bump releaseNotes =
     andThen (getCurrentVersion e lastRelease) (\<lambda>currentVersion.
       seq (emit (Release (AddToChangelog releaseNotes lastRelease (strOf currentVersion))))
      (seq (emit (Release (GetCommitsInRelease lastRelease (orUndefined (o_to opts)))))
      (seq (emit (Hook (BeforeCommitChangelog
              \<lparr>cl_bump = bump,
               cl_commits = getCommitsInRelease (releaseHelper e) lastRelease
                              (orUndefined (o_to opts)),
               cl_releaseNotes = releaseNotes,
               cl_currentVersion = strOf currentVersion,
               cl_lastRelease = lastRelease\<rparr>)))
      (seq (emit (Exec ''git'' [''commit'', ''-m'', dq @ changelogMessage opts @ dq,
                                ''--no-verify'']))
           (emit (Hook (AfterAddToChangelog
              \<lparr>cl_bump = bump,
               cl_commits = getCommitsInRelease (releaseHelper e) lastRelease
                              (orUndefined (o_to opts)),
               cl_releaseNotes = releaseNotes,
               cl_currentVersion = strOf currentVersion,
               cl_lastRelease = lastRelease\<rparr>)))))))"

definition makeChangelog :: "env \<Rightarrow> options \<Rightarrow> unit action" where
  "makeChangelog e opts =
     withState (\<lambda>s.
       if \<not> hasRelease s \<or> \<not> hasGit s then throw createErrorMessage
       else
         seq (setGitUser e)
           (andThen (fromOrLatestRelease e (o_from opts)) (\<lambda>lastRelease.
              seq (emit (Release (GetSemverBump lastRelease (o_to opts))))
                (withState (\<lambda>s1.
                   seq (emit (Release (GenerateReleaseNotes lastRelease
                                (orUndefined (o_to opts)) (versionBump s1))))
                  (seq (emit (Log LogInfo (''New Release Notes'' @ [newline] @ '' ''
                          @ generateReleaseNotes (releaseHelper e) lastRelease
                              (orUndefined (o_to opts)) (versionBump s1))))
                       (if o_dryRun opts then ret ()
                        else commitChangelog e opts lastRelease
                               (getSemverBump (releaseHelper e) lastRelease (o_to opts))
                               (generateReleaseNotes (releaseHelper e) lastRelease
                                  (orUndefined (o_to opts)) (versionBump s1)))))))))"

text \<open>\<open>/^\d+\.\d+\.\d+/\<close> at the start of the string.\<close>

definition startsWithVersion :: "string \<Rightarrow> bool" where
  "startsWithVersion s =
     (takeWhile isDigit s \<noteq> [] \<and>
      (case dropWhile isDigit s of
         [] \<Rightarrow> False
       | d1 # r1 \<Rightarrow>
           d1 = CHR ''.'' \<and> takeWhile isDigit r1 \<noteq> [] \<and>
           (case dropWhile isDigit r1 of
              [] \<Rightarrow> False
            | d2 # r2 \<Rightarrow> d2 = CHR ''.'' \<and> takeWhile isDigit r2 \<noteq> [])))"

definition noTagError :: string where
  "noTagError = ''git.getLatestTagInBranch failed''"

definition sameVersionWarning :: "string \<Rightarrow> string" where
  "sameVersionWarning newVersion =
     ''Nothing released to Github. Version to be released is the same as the latest release on Github: ''
     @ newVersion"

text \<open>
  \<open>useVersion || (await this.getCurrentVersion(lastRelease)) ||
  (await this.git.getLatestTagInBranch())\<close>
\<close>

definition rawVersionOf :: "env \<Rightarrow> options \<Rightarrow> string \<Rightarrow> (string option) action" where
  "rawVersionOf e opts lastRelease =
     (if truthy (o_useVersion opts) then ret (o_useVersion opts)
      else andThen (getCurrentVersion e lastRelease) (\<lambda>current.
             if truthy current then ret current
             else seq (emit (Git GetLatestTagInBranch))
                    (case getLatestTagInBranch (gitClient e) of
                       None \<Rightarrow> throw noTagError
                     | Some tag \<Rightarrow> ret (Some tag))))"

text \<open>The part of \<open>makeRelease\<close> from the check of \<open>rawVersion\<close> on.\<close>

definition releaseVersion ::
  "env \<Rightarrow> options \<Rightarrow> string \<Rightarrow> commit list \<Rightarrow> string \<Rightarrow> string option
     \<Rightarrow> (string option) action" where
  "releaseVersion e opts lastRelease commitsInRelease releaseNotes rawVersion =
     (if \<not> truthy rawVersion then
        seq (emit (Log LogError ''Could not calculate next version from last tag.'')) (ret None)
      else
        (let newVersion = (if parse (semver e) (strOf rawVersion)
                           then prefixRelease (releaseHelper e) (strOf rawVersion)
                           else strOf rawVersion)
         in
           if \<not> o_dryRun opts \<and> parse (semver e) newVersion
              \<and> parse (semver e) lastRelease \<and> eq (semver e) newVersion lastRelease
           then seq (emit (Log LogWarn (sameVersionWarning newVersion))) (ret None)
           else
             andThen
               (if o_dryRun opts then
                  seq (emit (Log LogInfo (''Would have released (unless ran with '' @ dq
                         @ ''shipit'' @ dq @ ''): '' @ newVersion)))
                      (ret None)
                else
                  seq (emit (Log LogInfo (''Releasing '' @ newVersion @ '' to GitHub.'')))
                 (seq (emit (Git (PublishRelease releaseNotes newVersion)))
                      (ret (Some (publish (gitClient e) releaseNotes newVersion)))))
               (\<lambda>response.
                  seq (emit (Hook (AfterRelease
                         \<lparr>ar_lastRelease = lastRelease,
                          ar_newVersion = Some newVersion,
                          ar_commits = commitsInRelease,
                          ar_releaseNotes = releaseNotes,
                          ar_response = response\<rparr>)))
                      (ret (Some newVersion)))))"

definition lastReleaseTag :: "env \<Rightarrow> string \<Rightarrow> string" where
  "lastReleaseTag e found =
     (if startsWithVersion found then prefixRelease (releaseHelper e) found else found)"

definition makeRelease :: "env \<Rightarrow> options \<Rightarrow> (string option) action" where
  "makeRelease e opts =
     withState (\<lambda>s.
       if \<not> hasRelease s \<or> \<not> hasGit s then throw createErrorMessage
       else
         andThen (fromOrLatestRelease e (o_from opts)) (\<lambda>found.
           seq (emit (Log LogInfo (''Last used release: '' @ lastReleaseTag e found)))
          (seq (emit (Release (GetCommitsInRelease (lastReleaseTag e found) None)))
             (withState (\<lambda>s1.
                seq (emit (Release (GenerateReleaseNotes (lastReleaseTag e found) None
                             (versionBump s1))))
               (seq (emit (Log LogInfo (''Using release notes:'' @ [newline]
                       @ generateReleaseNotes (releaseHelper e) (lastReleaseTag e found) None
                           (versionBump s1))))
               (andThen (rawVersionOf e opts (lastReleaseTag e found))
                  (releaseVersion e opts (lastReleaseTag e found)
                     (getCommitsInRelease (releaseHelper e) (lastReleaseTag e found) None)
                     (generateReleaseNotes (releaseHelper e) (lastReleaseTag e found) None
                        (versionBump s1))))))))))"

section \<open>The engine: canary releases\<close>

text \<open>
  Modelled from the spec: the bump kind \<open>patch\<close> of the enumeration \<open>SEMVER\<close> (\<open>./semver\<close>,
  which is not among the sources).  A bump kind is a string; the empty string is the
  sentinel for no release.
\<close>

definition SEMVER_patch :: string where
  "SEMVER_patch = ''patch''"

definition noCanaryPluginMessage :: string where
  "noCanaryPluginMessage =
     ''None of the plugins that you are using implement the '' @ [CHR 0x60] @ ''canary''
     @ [CHR 0x60] @ '' command!'' @ [newline, newline]
     @ dq @ ''canary'' @ dq
     @ '' releases are versions that are used solely to test changes. They make sense on some platforms (ex: npm) but not all!''
     @ [newline, newline]
     @ ''If you think your package manager has the ability to support canaries please file an issue or submit a pull request,''"

text \<open>The request number and the build id the CI environment gives (lines 611 to 617).\<close>

definition envCanaryInfo :: "ci_env \<Rightarrow> string option \<times> string option" where
  "envCanaryInfo c =
     (if env_pr c \<noteq> None \<and> env_build c \<noteq> None then
        (case env_pr c of Some v \<Rightarrow> v | None \<Rightarrow> None,
         case env_build c of Some v \<Rightarrow> v | None \<Rightarrow> None)
      else if env_pr c \<noteq> None \<and> env_commit c \<noteq> None then
        (case env_pr c of Some v \<Rightarrow> v | None \<Rightarrow> None,
         case env_commit c of Some v \<Rightarrow> v | None \<Rightarrow> None)
      else (None, None))"

text \<open>\<open>options.pr ? String(options.pr) : pr\<close>\<close>

definition optionOr :: "nat option \<Rightarrow> string option \<Rightarrow> string option" where
  "optionOr given fromEnv =
     (case given of
        None \<Rightarrow> fromEnv
      | Some n \<Rightarrow> if n \<noteq> 0 then Some (showNat n) else fromEnv)"

text \<open>
  The suffix of the canary version (lines 631 to 643); \<open>sha\<close> is the answer of
  \<open>git.getSha(true)\<close>, asked only when it is needed.
\<close>

definition canarySuffix :: "string option \<Rightarrow> string option \<Rightarrow> string \<Rightarrow> string" where
  "canarySuffix pr build sha =
     (let v0 = [];
          v1 = (if truthy pr then v0 @ ''.'' @ strOf pr else v0);
          v2 = (if truthy build then v1 @ ''.'' @ strOf build else v1)
      in if \<not> truthy pr \<or> \<not> truthy build then v2 @ ''.'' @ sha else v2)"

definition canaryBody :: "string option \<Rightarrow> string" where
  "canaryBody m = (case m of None \<Rightarrow> ''Published PR with canary version: %v'' | Some x \<Rightarrow>
     if x = [] then ''Published PR with canary version: %v'' else x)"

text \<open>The non-dry-run part of \<open>canary\<close> after a published identifier came back.\<close>

definition reportCanary :: "env \<Rightarrow> options \<Rightarrow> string option \<Rightarrow> string option \<Rightarrow> unit action" where
  "reportCanary e opts pr newVersion =
     seq (if canaryBody (o_message opts) \<noteq> ''false'' \<and> truthy pr then
            prBody e
              \<lparr>c_message = Some (replaceFirst ''%v''
                   (if \<not> truthy newVersion \<or> strIncludes (strOf newVersion) [newline]
                    then strOf newVersion
                    else [CHR 0x60] @ strOf newVersion @ [CHR 0x60])
                   [] (canaryBody (o_message opts))),
               c_pr = Number (strOf pr),
               c_context = Some ''canary-version'',
               c_dryRun = False, c_delete = False, c_edit = False\<rparr>
          else ret ())
         (emit (Log LogSuccess (''Published canary version''
            @ (if truthy newVersion then '': '' @ strOf newVersion else []))))"

text \<open>The end of \<open>canary\<close>: the commits since the latest tag of the branch.\<close>

definition canaryCommits :: "env \<Rightarrow> (commit list) action" where
  "canaryCommits e =
     seq (emit (Git GetLatestTagInBranch))
       (andThen (case getLatestTagInBranch (gitClient e) of
                   Some tag \<Rightarrow> ret tag
                 | None \<Rightarrow> seq (emit (Git GetFirstCommit)) (ret (getFirstCommit (gitClient e))))
          (\<lambda>latestTag. seq (emit (Release (GetCommits latestTag)))
                            (ret (getCommits (releaseHelper e) latestTag))))"

text \<open>\<open>pr\<close> and \<open>build\<close> after lines 619 and 620.\<close>

definition canaryPr :: "env \<Rightarrow> options \<Rightarrow> string option" where
  "canaryPr e opts = optionOr (o_pr opts) (fst (envCanaryInfo (ci e)))"

definition canaryBuild :: "env \<Rightarrow> options \<Rightarrow> string option" where
  "canaryBuild e opts = optionOr (o_build opts) (snd (envCanaryInfo (ci e)))"

text \<open>The bump \<open>calculateSemVerBump\<close> answers for the labels of the commits since \<open>HEAD^\<close>.\<close>

definition headBump :: "env \<Rightarrow> world \<Rightarrow> string" where
  "headBump e s =
     calculateSemVerBump (releaseHelper e)
       (map labels (getCommitsInRelease (releaseHelper e) ''HEAD^'' None)) (theConfig s)"

text \<open>\<open>calculateSemVerBump(labels, this.semVerLabels!, this.config) || SEMVER.patch\<close>\<close>

definition canaryBump :: "env \<Rightarrow> world \<Rightarrow> string" where
  "canaryBump e s = (if headBump e s \<noteq> [] then headBump e s else SEMVER_patch)"

definition canaryVersion :: "env \<Rightarrow> options \<Rightarrow> string" where
  "canaryVersion e opts =
     canarySuffix (canaryPr e opts) (canaryBuild e opts) (getSha (gitClient e) True)"

definition canary :: "env \<Rightarrow> options \<Rightarrow> ((string option \<times> commit list) option) action" where
  "canary e opts =
     withState (\<lambda>s.
           if \<not> hasGit s \<or> \<not> hasRelease s then throw createErrorMessage
           else if canaryTaps (theHooks s) = [] then
             seq (emit (Log LogError noCanaryPluginMessage)) (exitProcess 1)
           else
             seq (emit (Release (GetCommitsInRelease ''HEAD^'' None)))
            (seq (if \<not> truthy (canaryPr e opts) \<or> \<not> truthy (canaryBuild e opts)
                  then emit (Git (GetSha True)) else ret ())
            (if o_dryRun opts then
               seq (emit (Log LogWarn (''Published canary identifier would be: '' @ dq
                      @ ''-canary'' @ canaryVersion e opts @ dq)))
                   (andThen (canaryCommits e) (\<lambda>commitsInRelease.
                      ret (Some (Some [], commitsInRelease))))
             else
               seq (emit (Hook (Canary (canaryBump e s) (canaryVersion e opts))))
                 (case firstDefined
                         (map (\<lambda>tap. snd tap (canaryBump e s) (canaryVersion e opts))
                              (canaryTaps (theHooks s))) None of
                    Some (Failure err) \<Rightarrow> seq (emit (Log LogWarn err)) (ret None)
                  | Some (Published newVersion) \<Rightarrow>
                      seq (reportCanary e opts (canaryPr e opts) (Some newVersion))
                          (andThen (canaryCommits e) (\<lambda>commitsInRelease.
                             ret (Some (Some newVersion, commitsInRelease))))
                  | None \<Rightarrow>
                      seq (reportCanary e opts (canaryPr e opts) None)
                          (andThen (canaryCommits e) (\<lambda>commitsInRelease.
                             ret (Some (None, commitsInRelease))))))))"

section \<open>The engine: the full workflow\<close>

definition notIncrementedWarning :: string where
  "notIncrementedWarning =
     ''The version reported in the line above hasn'' @ [CHR 0x27]
     @ ''t been incremented during '' @ [CHR 0x60] @ ''dry-run'' @ [CHR 0x60]"

text \<open>The four hook points of a release, fired one after the other (lines 780 to 789).\<close>

definition versionAndPublish :: "string \<Rightarrow> unit action" where
  "versionAndPublish version =
     seq (emit (Hook (Version version)))
    (seq (emit (Hook AfterVersion))
    (seq (emit (Hook (Publish version)))
         (emit (Hook AfterPublish))))"

text \<open>What a dry run reports after \<open>makeRelease\<close> (lines 794 to 806).\<close>

definition reportDryRun :: "env \<Rightarrow> string \<Rightarrow> unit action" where
  "reportDryRun e version =
     seq (emit (Log LogWarn notIncrementedWarning))
       (andThen (getCurrentVersion e (getLatestRelease (gitClient e))) (\<lambda>current.
          if parse (semver e) (strOf current) then
            emit (Log LogWarn (''Published version would be: ''
                    @ inc (semver e) (strOf current) version))
          else ret ()))"

text \<open>\<open>publishLatest\<close> once a release is warranted (from line 770 on).\<close>

definition publishVersion ::
  "env \<Rightarrow> options \<Rightarrow> string \<Rightarrow> ((string option \<times> commit list) option) action" where
  "publishVersion e opts version =
     seq (emit (Git GetLatestRelease))
    (seq (emit (Release (GetCommitsInRelease (getLatestRelease (gitClient e)) None)))
    (seq (makeChangelog e opts)
    (seq (if \<not> o_dryRun opts then versionAndPublish version else ret ())
    (andThen (makeRelease e opts) (\<lambda>newVersion.
       seq (if o_dryRun opts then reportDryRun e version else ret ())
           (ret (Some (newVersion,
                       getCommitsInRelease (releaseHelper e)
                         (getLatestRelease (gitClient e)) None))))))))"

definition publishLatest ::
  "env \<Rightarrow> options \<Rightarrow> ((string option \<times> commit list) option) action" where
  "publishLatest e opts =
     withState (\<lambda>s.
       if \<not> hasGit s \<or> \<not> hasRelease s then throw createErrorMessage
       else
         andThen (getVersion e None) (\<lambda>version.
           if version = [] then
             seq (emit (Log LogInfo ''No version published.'')) (ret None)
           else publishVersion e opts version))"

definition shipit :: "env \<Rightarrow> options \<Rightarrow> unit action" where
  "shipit e opts =
     withState (\<lambda>s.
           if \<not> hasGit s \<or> \<not> hasRelease s then throw createErrorMessage
           else
             seq (emit (Hook BeforeShipIt))
               (andThen
                  (if \<not> env_isPr (ci e) \<and> env_branch (ci e) = Some (Some (baseBranch e))
                   then publishLatest e opts
                   else canary e opts)
                  (\<lambda>publishInfo.
                     case publishInfo of
                       None \<Rightarrow> ret ()
                     | Some info \<Rightarrow> emit (Hook (AfterShipIt (fst info) (snd info))))))"

text \<open>The commands \<open>version\<close>, \<open>changelog\<close> and \<open>release\<close>.\<close>

definition version :: "env \<Rightarrow> options \<Rightarrow> unit action" where
  "version e opts = andThen (getVersion e (o_from opts)) (\<lambda>bump. emit (ConsoleLog bump))"

definition changelog :: "env \<Rightarrow> options \<Rightarrow> unit action" where
  "changelog e opts = makeChangelog e opts"

definition runRelease :: "env \<Rightarrow> options \<Rightarrow> unit action" where
  "runRelease e opts = andThen (makeRelease e opts) (\<lambda>_. ret ())"

section \<open>The engine: loading the configuration and the plugins\<close>

text \<open>A waterfall call: every tapped handler runs, in registration order, on the last value.\<close>

fun waterfall :: "(string \<times> (config \<Rightarrow> config)) list \<Rightarrow> config \<Rightarrow> config action" where
  "waterfall [] c = ret c"
| "waterfall (tap # taps) c =
     seq (emit (Handler ModifyConfig (fst tap))) (waterfall taps (snd tap c))"

text \<open>A broadcast call of \<open>beforeRun\<close>; what its handlers do is not known to the engine.\<close>

fun broadcast :: "hook_call \<Rightarrow> string list \<Rightarrow> unit action" where
  "broadcast h [] = ret ()"
| "broadcast h (owner # owners) = seq (emit (Handler h owner)) (broadcast h owners)"

definition pluginRef :: "plugin_entry \<Rightarrow> string \<times> string" where
  "pluginRef p = (case p of PluginName n \<Rightarrow> (n, ''{}'') | PluginWithOptions n os \<Rightarrow> (n, os))"

fun applyPlugins :: "plugin list \<Rightarrow> unit action" where
  "applyPlugins [] = ret ()"
| "applyPlugins (p # ps) =
     seq (emit (PluginApply (plugin_name p)))
    (seq (modify (\<lambda>s. s\<lparr>theHooks := plugin_apply p (theHooks s)\<rparr>))
         (applyPlugins ps))"

definition loadPlugins :: "env \<Rightarrow> config \<Rightarrow> unit action" where
  "loadPlugins e c =
     applyPlugins
       (List.map_filter (loadPlugin e)
          (map pluginRef
             (PluginName ''./plugins/filter-non-pull-request''
              # (case cfg_plugins c of
                   Some ps \<Rightarrow> ps
                 | None \<Rightarrow> [PluginName (if isPkg e then ''git-tag'' else ''npm'')]))))"

text \<open>\<open>getRepo\<close>: owner, repository and token, from the configuration or the hook.\<close>

definition getRepo :: "config \<Rightarrow> ((string \<times> string \<times> string option) option) action" where
  "getRepo c =
     (if truthy (cfg_owner c) \<and> truthy (cfg_repo c)
      then ret (Some (strOf (cfg_owner c), strOf (cfg_repo c), cfg_token c))
      else seq (emit (Hook GetRepository))
             (withState (\<lambda>s. ret (firstDefined (map snd (getRepository (theHooks s))) None))))"

text \<open>
  The loader of \<open>./config\<close> is a collaborator: its answer is \<open>loadedConfig\<close>.  The git
  client and the release helper exist from the end of \<open>loadConfig\<close> on.
\<close>

definition loadConfig :: "env \<Rightarrow> unit action" where
  "loadConfig e =
     seq (emit LoadConfig)
    (seq (emit (Hook ModifyConfig))
    (andThen (withState (\<lambda>s. waterfall (modifyConfig (theHooks s))
                               ((loadedConfig e)\<lparr>cfg_baseBranch := baseBranch e\<rparr>)))
       (\<lambda>c.
          seq (modify (\<lambda>s. s\<lparr>theConfig := Some c\<rparr>))
         (seq (loadPlugins e c)
         (seq (emit (Hook BeforeRun))
         (seq (withState (\<lambda>s. broadcast BeforeRun (beforeRun (theHooks s))))
         (andThen (getRepo c) (\<lambda>repository.
            (let token = (case repository of
                            Some r \<Rightarrow> if truthy (snd (snd r)) then snd (snd r) else GH_TOKEN e
                          | None \<Rightarrow> GH_TOKEN e)
             in
             if \<not> truthy token \<or> token = Some ''undefined'' then
               seq (emit (Log LogError
                      ''No GitHub was found. Make sure it is available on process.env.GH_TOKEN.''))
                   (throw ''GitHub token not found!'')
             else if \<not> truthy (case repository of Some r \<Rightarrow> Some (fst r) | None \<Rightarrow> cfg_owner c)
                     \<or> \<not> truthy (case repository of Some r \<Rightarrow> Some (fst (snd r))
                                   | None \<Rightarrow> cfg_repo c)
             then throw ''Must set owner, repo, and GitHub token.''
             else
               seq (modify (\<lambda>s. s\<lparr>hasGit := True, hasRelease := True\<rparr>))
                   (emit (Hook OnCreateRelease)))))))))))"

section \<open>Predicates on events\<close>

text \<open>The events dry-run mode is to suppress.\<close>

fun isMutation :: "event \<Rightarrow> bool" where
  "isMutation (Hook (Version v)) = True"
| "isMutation (Hook AfterVersion) = True"
| "isMutation (Hook (Publish v)) = True"
| "isMutation (Hook AfterPublish) = True"
| "isMutation (Hook (Canary v c)) = True"
| "isMutation (Hook (BeforeCommitChangelog l)) = True"
| "isMutation (Hook (AfterAddToChangelog l)) = True"
| "isMutation (Release (AddToChangelog n l c)) = True"
| "isMutation (Exec cmd (a # args)) = (cmd = ''git'' \<and> a = ''commit'')"
| "isMutation (Git (PublishRelease n v)) = True"
| "isMutation ev = False"

text \<open>The creation of the release object and the firing of \<open>afterRelease\<close>.\<close>

fun isReleaseStep :: "event \<Rightarrow> bool" where
  "isReleaseStep (Git (PublishRelease n v)) = True"
| "isReleaseStep (Hook (AfterRelease a)) = True"
| "isReleaseStep ev = False"


text \<open>The report of the would-be incremented version.\<close>

fun isVersionReport :: "event \<Rightarrow> bool" where
  "isVersionReport (Log l m) = (l = LogWarn \<and> take 28 m = ''Published version would be: '')"
| "isVersionReport ev = False"

text \<open>The run of a handler tapped on \<open>modifyConfig\<close>.\<close>

fun isConfigHandler :: "event \<Rightarrow> bool" where
  "isConfigHandler (Handler ModifyConfig owner) = True"
| "isConfigHandler ev = False"

section \<open>Examples\<close>

text \<open>
  A stand-in for the \<open>semver\<close> package on plain versions \<open>MAJOR.MINOR.PATCH\<close> with an
  optional leading \<open>v\<close>; the examples use nothing else of the package.
\<close>

definition plainVersion :: "string \<Rightarrow> (nat \<times> nat \<times> nat) option" where
  "plainVersion s =
     (let t = (if take 1 s = ''v'' then drop 1 s else s);
          a = takeWhile isDigit t; r1 = dropWhile isDigit t;
          b = takeWhile isDigit (drop 1 r1); r2 = dropWhile isDigit (drop 1 r1);
          c = takeWhile isDigit (drop 1 r2); r3 = dropWhile isDigit (drop 1 r2)
      in if a \<noteq> [] \<and> b \<noteq> [] \<and> c \<noteq> [] \<and> take 1 r1 = ''.'' \<and> take 1 r2 = ''.'' \<and> r3 = []
         then Some (decimalValue a, decimalValue b, decimalValue c) else None)"

definition plainInc :: "string \<Rightarrow> string \<Rightarrow> string" where
  "plainInc s bump =
     (case plainVersion s of
        None \<Rightarrow> ''null''
      | Some (a, b, c) \<Rightarrow>
          if bump = ''major'' then showNat (a + 1) @ ''.0.0''
          else if bump = ''minor'' then showNat a @ ''.'' @ showNat (b + 1) @ ''.0''
          else showNat a @ ''.'' @ showNat b @ ''.'' @ showNat (c + 1))"

definition plainSemver :: semver_lib where
  "plainSemver =
     \<lparr>parse = (\<lambda>s. plainVersion s \<noteq> None),
      eq = (\<lambda>a b. plainVersion a = plainVersion b),
      gt = (\<lambda>a b. case (plainVersion a, plainVersion b) of
                     (Some (a1, a2, a3), Some (b1, b2, b3)) \<Rightarrow>
                       a1 > b1 \<or> (a1 = b1 \<and> (a2 > b2 \<or> (a2 = b2 \<and> a3 > b3)))
                   | _ \<Rightarrow> False),
      inc = plainInc\<rparr>"

text \<open>A CI build of the branch \<open>master\<close>, outside of a pull request.\<close>

definition exCi :: ci_env where
  "exCi = \<lparr>env_pr = None, env_build = None, env_commit = None, env_isPr = False,
           env_branch = Some (Some ''master''), env_isCi = True\<rparr>"

text \<open>
  A repository whose latest release is \<open>v1.0.0\<close>; since then one commit was merged, from
  request 5, whose description is \<open>Fixes #10, #11\<close>.
\<close>

definition exCommit :: commit where
  "exCommit = \<lparr>hash = ''abc1234'', subject = ''Add a feature (#5)'', labels = [''minor''],
               pullRequest = Some 5\<rparr>"

definition exGit :: git_client where
  "exGit = \<lparr>getLatestRelease = ''v1.0.0'', getSha = (\<lambda>short. ''abc1234''),
            getLatestTagInBranch = Some ''v1.0.0'', getFirstCommit = ''0000000'',
            getPullRequestBody = (\<lambda>n. if n = 5 then ''Fixes #10, #11'' else []),
            getCommitsForPR = (\<lambda>n. if n = 5 then [''Add a feature''] else []),
            publish = (\<lambda>notes v. ''release of '' @ v)\<rparr>"

definition exRelease :: release_helper where
  "exRelease = \<lparr>getCommitsInRelease = (\<lambda>from to. [exCommit]),
                getCommits = (\<lambda>from. [exCommit]),
                getSemverBump = (\<lambda>from to. ''minor''),
                generateReleaseNotes = (\<lambda>from to bump. ''notes''),
                calculateSemVerBump = (\<lambda>ls c. []),
                noVersionPrefix = False,
                skipReleaseLabels = [''skip-release''],
                opt_email = None, opt_name = None\<rparr>"

definition exConfig :: config where
  "exConfig = \<lparr>cfg_labels = Map.empty, cfg_plugins = Some [PluginName ''released''],
               cfg_owner = Some ''rdipika'', cfg_repo = Some ''auto'', cfg_token = None,
               cfg_baseBranch = ''master''\<rparr>"

definition exEnv :: env where
  "exEnv = \<lparr>ci = exCi, gitClient = exGit, releaseHelper = exRelease, semver = plainSemver,
            options_dryRun = False, baseBranch = ''master'', GH_TOKEN = Some ''token'',
            gitUserEmailSet = True, gitUserNameSet = True, loadedConfig = exConfig,
            loadPlugin = (\<lambda>ref. if fst ref = ''released'' then Some ReleasedLabelPlugin else None),
            isPkg = False\<rparr>"

definition noHooks :: hooks where
  "noHooks = \<lparr>modifyConfig = [], beforeRun = [], afterRelease = [], canaryTaps = [],
              getPreviousVersion = [], getRepository = [], getAuthor = []\<rparr>"

text \<open>The \<open>Auto\<close> object after its constructor, and after a \<open>loadConfig\<close>.\<close>

definition newWorld :: world where
  "newWorld = \<lparr>hasGit = False, hasRelease = False, theConfig = None, versionBump = None,
               theHooks = noHooks, labelsOn = (\<lambda>n. []), events = []\<rparr>"

definition readyWorld :: world where
  "readyWorld = newWorld\<lparr>hasGit := True, hasRelease := True, theConfig := Some exConfig\<rparr>"

text \<open>What \<open>makeRelease\<close> hands to \<open>afterRelease\<close> once \<open>v1.1.0\<close> is released.\<close>

definition exReleased :: after_release where
  "exReleased = \<lparr>ar_lastRelease = ''v1.0.0'', ar_newVersion = Some ''v1.1.0'',
                 ar_commits = [exCommit], ar_releaseNotes = ''notes'',
                 ar_response = Some ''release of v1.1.0''\<rparr>"

definition exOptions :: options where
  "exOptions = \<lparr>o_dryRun = False, o_pr = None, o_build = None, o_message = None,
                o_from = None, o_to = None, o_useVersion = None\<rparr>"

definition dryOptions :: options where
  "dryOptions = exOptions\<lparr>o_dryRun := True\<rparr>"

text \<open>A publisher tapped on the \<open>canary\<close> hook point: one that publishes, one that fails.\<close>

definition canaryWorld :: world where
  "canaryWorld =
     readyWorld\<lparr>theHooks := noHooks\<lparr>canaryTaps :=
       [(''npm'', (\<lambda>bump suffix. Some (Published (''1.0.1-canary'' @ suffix))))]\<rparr>\<rparr>"

definition failingCanaryWorld :: world where
  "failingCanaryWorld =
     readyWorld\<lparr>theHooks := noHooks\<lparr>canaryTaps :=
       [(''npm'', (\<lambda>bump suffix. Some (Failure ''no access'')))]\<rparr>\<rparr>"

text \<open>A project whose version plugin answers a name that is no semantic version.\<close>

definition nightlyWorld :: world where
  "nightlyWorld =
     readyWorld\<lparr>theHooks := noHooks\<lparr>getPreviousVersion :=
       [(''custom'', (\<lambda>prefix. Some ''nightly''))]\<rparr>\<rparr>"






section \<open>Vocabulary of the statements and of the proofs\<close>

text \<open>
  What the \<open>getPreviousVersion\<close> hook answers in a state: the first defined answer of a
  tapped handler, or else the answer of the handler \<open>getCurrentVersion\<close> taps last.  And what
  \<open>getCurrentVersion\<close> then returns.
\<close>

definition previousVersionOf :: "env \<Rightarrow> world \<Rightarrow> string" where
  "previousVersionOf e s =
     (case firstDefined (map (\<lambda>tap. snd tap (prefixRelease (releaseHelper e)))
                           (getPreviousVersion (theHooks s))) None of
        Some v \<Rightarrow> v
      | None \<Rightarrow> prefixRelease (releaseHelper e) ''0.0.0'')"

definition currentVersionOf :: "env \<Rightarrow> world \<Rightarrow> string \<Rightarrow> string" where
  "currentVersionOf e s lastRelease =
     (if parse (semver e) lastRelease \<and> parse (semver e) (previousVersionOf e s)
         \<and> gt (semver e) lastRelease (previousVersionOf e s)
      then lastRelease else previousVersionOf e s)"

text \<open>An action preserves an observation of the state, whether it returns or fails.\<close>

definition preserves :: "(world \<Rightarrow> 'x) \<Rightarrow> 'a action \<Rightarrow> bool" where
  "preserves g m = (\<forall>s. g (snd (m s)) = g s)"

text \<open>
  The labels of every target are the ones of the start, with the label once more at the
  end when it was not there.
\<close>

definition labelledOnce :: "string \<Rightarrow> world \<Rightarrow> world \<Rightarrow> bool" where
  "labelledOnce l s0 s =
     (\<forall>n. labelsOn s n = labelsOn s0 n
          \<or> (l \<notin> set (labelsOn s0 n) \<and> labelsOn s n = labelsOn s0 n @ [l]))"

text \<open>From a state with \<open>P\<close>, when the action returns, \<open>Q\<close> holds of its value and state.\<close>

definition hoare :: "(world \<Rightarrow> bool) \<Rightarrow> 'a action \<Rightarrow> ('a \<Rightarrow> world \<Rightarrow> bool) \<Rightarrow> bool" where
  "hoare P m Q = (\<forall>s. P s \<longrightarrow> (case m s of (Inl err, s') \<Rightarrow> True | (Inr x, s') \<Rightarrow> Q x s'))"

text \<open>A pending call that has ended without a rejection.\<close>

fun fulfilled :: "promise \<Rightarrow> bool" where
  "fulfilled Resolved = True"
| "fulfilled p = False"



text \<open>
  What a pending call still owes: it is not rejected, the events it adds until it has
  ended are \<open>M\<close>, in some order, and it ends within \<open>b\<close> turns; all that in states with \<open>I\<close>,
  which every turn keeps.
\<close>

inductive due :: "(world \<Rightarrow> bool) \<Rightarrow> promise \<Rightarrow> event multiset \<Rightarrow> nat \<Rightarrow> bool"
  for I :: "world \<Rightarrow> bool" where
  due_Resolved: "due I Resolved {#} b"
| due_Awaiting:
    "length Ms = length ps \<Longrightarrow> length bs = length ps
     \<Longrightarrow> (\<And>i. i < length ps \<Longrightarrow> due I (ps ! i) (Ms ! i) (bs ! i))
     \<Longrightarrow> (\<And>s. I s \<Longrightarrow> I (snd (k s))
              \<and> (\<exists>N M'. mset (events (snd (k s))) = mset (events s) + N
                        \<and> due I (fst (k s)) M' b' \<and> N + M' = M))
     \<Longrightarrow> sum_list bs + Suc b' \<le> b
     \<Longrightarrow> due I (Awaiting ps k) (sum_list Ms + M) b"



section \<open>Rules for actions\<close>

declare showNat.simps [simp del]

lemma preservesI: "(\<And>s. g (snd (m s)) = g s) \<Longrightarrow> preserves g m"
  by (simp add: preserves_def)

lemma preservesD: "preserves g m \<Longrightarrow> g (snd (m s)) = g s"
  by (simp add: preserves_def)

lemma preserves_ret: "preserves g (ret x)"
  by (simp add: preserves_def ret_def)

lemma preserves_throw: "preserves g (throw x)"
  by (simp add: preserves_def throw_def)

lemma preserves_exitProcess: "preserves g (exitProcess x)"
  by (simp add: preserves_def exitProcess_def)

lemma preserves_emit:
  "(\<And>s. g (s\<lparr>events := events s @ [ev]\<rparr>) = g s) \<Longrightarrow> preserves g (emit ev)"
  by (simp add: preserves_def emit_def)

lemma preserves_modify: "(\<And>s. g (h s) = g s) \<Longrightarrow> preserves g (modify h)"
  by (simp add: preserves_def modify_def)

lemma preserves_withState: "(\<And>s. preserves g (f s)) \<Longrightarrow> preserves g (withState f)"
  by (simp add: preserves_def withState_def)

lemma preserves_andThen:
  assumes m: "preserves g m" and f: "\<And>x. preserves g (f x)"
  shows "preserves g (andThen m f)"
proof (rule preservesI)
  fix s
  obtain r s' where ms: "m s = (r, s')" by (cases "m s")
  from preservesD [OF m, of s] ms have s': "g s' = g s" by simp
  show "g (snd (andThen m f s)) = g s"
  proof (cases r)
    case (Inl err)
    with ms s' show ?thesis by (simp add: andThen_def)
  next
    case (Inr x)
    from preservesD [OF f, of x s'] have "g (snd (f x s')) = g s'" .
    with ms Inr s' show ?thesis by (simp add: andThen_def)
  qed
qed

lemma preserves_seq: "preserves g m \<Longrightarrow> preserves g k \<Longrightarrow> preserves g (seq m k)"
  by (simp add: seq_def preserves_andThen)

lemma preserves_if:
  "(c \<Longrightarrow> preserves g a) \<Longrightarrow> (\<not> c \<Longrightarrow> preserves g b) \<Longrightarrow> preserves g (if c then a else b)"
  by simp

lemma preserves_case_option:
  "preserves g a \<Longrightarrow> (\<And>x. preserves g (b x))
   \<Longrightarrow> preserves g (case v of None \<Rightarrow> a | Some x \<Rightarrow> b x)"
  by (cases v) simp_all

lemmas preserves_intros =
  preserves_ret preserves_throw preserves_exitProcess preserves_andThen preserves_seq
  preserves_if preserves_withState preserves_case_option
  preserves_emit preserves_modify

section \<open>Rules for what an action establishes when it returns\<close>

lemma hoareI:
  "(\<And>s x s'. P s \<Longrightarrow> m s = (Inr x, s') \<Longrightarrow> Q x s') \<Longrightarrow> hoare P m Q"
  by (auto simp: hoare_def split: sum.splits)

lemma hoareD: "hoare P m Q \<Longrightarrow> P s \<Longrightarrow> m s = (Inr x, s') \<Longrightarrow> Q x s'"
  by (auto simp: hoare_def split: sum.splits)

lemma hoare_ret: "(\<And>s. P s \<Longrightarrow> Q x s) \<Longrightarrow> hoare P (ret x) Q"
  by (simp add: hoare_def ret_def)

lemma hoare_throw: "hoare P (throw x) Q"
  by (simp add: hoare_def throw_def)

lemma hoare_exitProcess: "hoare P (exitProcess x) Q"
  by (simp add: hoare_def exitProcess_def)

lemma hoare_emit:
  "(\<And>s. P s \<Longrightarrow> Q () (s\<lparr>events := events s @ [ev]\<rparr>)) \<Longrightarrow> hoare P (emit ev) Q"
  by (simp add: hoare_def emit_def)

lemma hoare_modify: "(\<And>s. P s \<Longrightarrow> Q () (h s)) \<Longrightarrow> hoare P (modify h) Q"
  by (simp add: hoare_def modify_def)

lemma hoare_withState:
  "(\<And>s0. hoare (\<lambda>s. s = s0 \<and> P s) (f s0) Q) \<Longrightarrow> hoare P (withState f) Q"
  by (simp add: hoare_def withState_def)

lemma hoare_andThen:
  assumes m: "hoare P m R" and f: "\<And>x. hoare (R x) (f x) Q"
  shows "hoare P (andThen m f) Q"
proof (rule hoareI)
  fix s y s'
  assume P: "P s" and run: "andThen m f s = (Inr y, s')"
  obtain r s1 where ms: "m s = (r, s1)" by (cases "m s")
  show "Q y s'"
  proof (cases r)
    case (Inl err)
    with ms run show ?thesis by (simp add: andThen_def)
  next
    case (Inr x)
    with ms run have fx: "f x s1 = (Inr y, s')" by (simp add: andThen_def)
    from hoareD [OF m P] ms Inr have "R x s1" by simp
    from hoareD [OF f this fx] show ?thesis .
  qed
qed

lemma hoare_seq: "hoare P m (\<lambda>_. R) \<Longrightarrow> hoare R k Q \<Longrightarrow> hoare P (seq m k) Q"
  unfolding seq_def by (rule hoare_andThen)

lemma hoare_if:
  "(c \<Longrightarrow> hoare P a Q) \<Longrightarrow> (\<not> c \<Longrightarrow> hoare P b Q) \<Longrightarrow> hoare P (if c then a else b) Q"
  by simp

lemma hoare_weaken:
  assumes m: "hoare P' m Q'" and pre: "\<And>s. P s \<Longrightarrow> P' s" and post: "\<And>x s. Q' x s \<Longrightarrow> Q x s"
  shows "hoare P m Q"
proof (rule hoareI)
  fix s x s'
  assume "P s" and run: "m s = (Inr x, s')"
  then have "P' s" by (simp add: pre)
  from hoareD [OF m this run] show "Q x s'" by (rule post)
qed

lemma hoare_preserves: "preserves g m \<Longrightarrow> hoare (\<lambda>s. p (g s)) m (\<lambda>_ s. p (g s))"
proof (rule hoareI)
  fix s x s'
  assume "preserves g m" and "p (g s)" and "m s = (Inr x, s')"
  then show "p (g s')" using preservesD [of g m s] by simp
qed

section \<open>The previous version during a run\<close>

lemma firstDefined_append:
  "firstDefined (xs @ ys) d = (case firstDefined xs None of Some v \<Rightarrow> Some v | None \<Rightarrow> firstDefined ys d)"
proof (induction xs)
  case Nil
  show ?case by simp
next
  case (Cons x xs)
  then show ?case by (cases x) simp_all
qed

lemma previousVersionOf_fallback:
  "previousVersionOf e
     (s\<lparr>theHooks := (theHooks s)\<lparr>getPreviousVersion := getPreviousVersion (theHooks s)
           @ [(''None'', (\<lambda>_. Some (prefixRelease (releaseHelper e) ''0.0.0'')))]\<rparr>\<rparr>)
   = previousVersionOf e s"
  by (simp add: previousVersionOf_def firstDefined_append split: option.splits)

lemma previousVersionOf_events [simp]:
  "previousVersionOf e (s\<lparr>events := evs\<rparr>) = previousVersionOf e s"
  by (simp add: previousVersionOf_def)

lemma previousVersionOf_versionBump [simp]:
  "previousVersionOf e (s\<lparr>versionBump := b\<rparr>) = previousVersionOf e s"
  by (simp add: previousVersionOf_def)

lemma getCurrentVersion_previous:
  "preserves (previousVersionOf e) (getCurrentVersion e l)"
  unfolding getCurrentVersion_def
  by (intro preserves_intros) (simp_all add: previousVersionOf_fallback)

lemma getCurrentVersion_value:
  "hoare (\<lambda>s. previousVersionOf e s = pv) (getCurrentVersion e l)
     (\<lambda>cur s. cur = Some (if parse (semver e) l \<and> parse (semver e) pv \<and> gt (semver e) l pv
                           then l else pv) \<and> previousVersionOf e s = pv)"
proof (rule hoareI)
  fix s x s'
  assume pv: "previousVersionOf e s = pv" and run: "getCurrentVersion e l s = (Inr x, s')"
  from preservesD [OF getCurrentVersion_previous, of e l s] run pv
  have "previousVersionOf e s' = pv" by simp
  moreover from run pv
  have "x = Some (if parse (semver e) l \<and> parse (semver e) pv \<and> gt (semver e) l pv then l else pv)"
    by (auto simp: getCurrentVersion_def seq_def andThen_def modify_def emit_def withState_def
        ret_def previousVersionOf_def firstDefined_append split: option.splits if_splits)
  ultimately show "x = Some (if parse (semver e) l \<and> parse (semver e) pv \<and> gt (semver e) l pv
                           then l else pv) \<and> previousVersionOf e s' = pv"
    by simp
qed

section \<open>Dry runs\<close>

lemma getCurrentVersion_keeps:
  "\<not> P (Hook GetPreviousVersion)
   \<Longrightarrow> preserves (\<lambda>s. filter P (events s)) (getCurrentVersion e l)"
  unfolding getCurrentVersion_def
  by (intro preserves_intros) simp_all

lemma fromOrLatestRelease_keeps:
  "\<not> P (Git GetLatestRelease)
   \<Longrightarrow> preserves (\<lambda>s. filter P (events s)) (fromOrLatestRelease e f)"
  unfolding fromOrLatestRelease_def
  by (intro preserves_intros) simp_all

lemma getVersion_keeps_mutation:
  "preserves (\<lambda>s. filter isMutation (events s)) (getVersion e f)"
  unfolding getVersion_def
  by (intro preserves_intros fromOrLatestRelease_keeps) simp_all

lemma setGitUser_keeps_mutation:
  "preserves (\<lambda>s. filter isMutation (events s)) (setGitUser e)"
  unfolding setGitUser_def Let_def
  by (intro preserves_intros) simp_all

lemma makeChangelog_dry:
  "o_dryRun opts \<Longrightarrow> preserves (\<lambda>s. filter isMutation (events s)) (makeChangelog e opts)"
  unfolding makeChangelog_def
  by (intro preserves_intros setGitUser_keeps_mutation fromOrLatestRelease_keeps) simp_all

lemma rawVersionOf_keeps_mutation:
  "preserves (\<lambda>s. filter isMutation (events s)) (rawVersionOf e opts l)"
  unfolding rawVersionOf_def
  by (intro preserves_intros getCurrentVersion_keeps) simp_all

lemma releaseVersion_dry:
  "o_dryRun opts
   \<Longrightarrow> preserves (\<lambda>s. filter isMutation (events s)) (releaseVersion e opts l cs n rv)"
  unfolding releaseVersion_def Let_def
  by (intro preserves_intros) simp_all

lemma makeRelease_dry:
  "o_dryRun opts \<Longrightarrow> preserves (\<lambda>s. filter isMutation (events s)) (makeRelease e opts)"
  unfolding makeRelease_def
  by (intro preserves_intros fromOrLatestRelease_keeps rawVersionOf_keeps_mutation
      releaseVersion_dry) simp_all

lemma canaryCommits_keeps_mutation:
  "preserves (\<lambda>s. filter isMutation (events s)) (canaryCommits e)"
  unfolding canaryCommits_def
  by (intro preserves_intros) simp_all

lemma canary_dry:
  "o_dryRun opts \<Longrightarrow> preserves (\<lambda>s. filter isMutation (events s)) (canary e opts)"
  unfolding canary_def
  by (intro preserves_intros canaryCommits_keeps_mutation) simp_all

lemma reportDryRun_keeps_mutation:
  "preserves (\<lambda>s. filter isMutation (events s)) (reportDryRun e v)"
  unfolding reportDryRun_def
  by (intro preserves_intros getCurrentVersion_keeps) simp_all

lemma publishVersion_dry:
  "o_dryRun opts \<Longrightarrow> preserves (\<lambda>s. filter isMutation (events s)) (publishVersion e opts v)"
  unfolding publishVersion_def
  by (intro preserves_intros makeChangelog_dry makeRelease_dry reportDryRun_keeps_mutation)
    simp_all

lemma publishLatest_dry:
  "o_dryRun opts \<Longrightarrow> preserves (\<lambda>s. filter isMutation (events s)) (publishLatest e opts)"
  unfolding publishLatest_def
  by (intro preserves_intros getVersion_keeps_mutation publishVersion_dry) simp_all

lemma shipit_dry:
  "o_dryRun opts \<Longrightarrow> preserves (\<lambda>s. filter isMutation (events s)) (shipit e opts)"
  unfolding shipit_def
  by (intro preserves_intros publishLatest_dry canary_dry) simp_all

lemma fromOrLatestRelease_previous:
  "preserves (previousVersionOf e) (fromOrLatestRelease e' f)"
  unfolding fromOrLatestRelease_def
  by (intro preserves_intros) simp_all

lemma getVersion_previous: "preserves (previousVersionOf e) (getVersion e' f)"
  unfolding getVersion_def
  by (intro preserves_intros fromOrLatestRelease_previous) simp_all

lemma setGitUser_previous: "preserves (previousVersionOf e) (setGitUser e')"
  unfolding setGitUser_def Let_def
  by (intro preserves_intros) simp_all

lemma commitChangelog_previous: "preserves (previousVersionOf e) (commitChangelog e opts l b n)"
  unfolding commitChangelog_def
  by (intro preserves_intros getCurrentVersion_previous) simp_all

lemma makeChangelog_previous: "preserves (previousVersionOf e) (makeChangelog e opts)"
  unfolding makeChangelog_def
  by (intro preserves_intros setGitUser_previous fromOrLatestRelease_previous
      commitChangelog_previous) simp_all

lemma rawVersionOf_previous: "preserves (previousVersionOf e) (rawVersionOf e opts l)"
  unfolding rawVersionOf_def
  by (intro preserves_intros getCurrentVersion_previous) simp_all

lemma releaseVersion_previous:
  "preserves (previousVersionOf e) (releaseVersion e' opts l cs n rv)"
  unfolding releaseVersion_def Let_def
  by (intro preserves_intros) simp_all

lemma makeRelease_previous: "preserves (previousVersionOf e) (makeRelease e opts)"
  unfolding makeRelease_def
  by (intro preserves_intros fromOrLatestRelease_previous rawVersionOf_previous
      releaseVersion_previous) simp_all

lemma getVersion_value:
  "hoare (\<lambda>s. previousVersionOf e s = pv) (getVersion e None)
     (\<lambda>v s. v = getSemverBump (releaseHelper e) (getLatestRelease (gitClient e)) None
            \<and> previousVersionOf e s = pv)"
proof (rule hoareI)
  fix s x s'
  assume pv: "previousVersionOf e s = pv" and run: "getVersion e None s = (Inr x, s')"
  from preservesD [OF getVersion_previous, of e e None s] run pv
  have "previousVersionOf e s' = pv" by simp
  moreover from run
  have "x = getSemverBump (releaseHelper e) (getLatestRelease (gitClient e)) None"
    by (auto simp: getVersion_def fromOrLatestRelease_def truthy_def seq_def andThen_def
        modify_def emit_def withState_def ret_def throw_def split: if_splits)
  ultimately show "x = getSemverBump (releaseHelper e) (getLatestRelease (gitClient e)) None
      \<and> previousVersionOf e s' = pv"
    by simp
qed

lemma reportDryRun_reports:
  assumes cur: "cur = (if parse (semver e) (getLatestRelease (gitClient e)) \<and> parse (semver e) pv
                          \<and> gt (semver e) (getLatestRelease (gitClient e)) pv
                       then getLatestRelease (gitClient e) else pv)"
    and parses: "parse (semver e) cur"
  shows "hoare (\<lambda>s. previousVersionOf e s = pv) (reportDryRun e v)
           (\<lambda>_ s. Log LogWarn (''Published version would be: '' @ inc (semver e) cur v)
                   \<in> set (events s))"
  unfolding reportDryRun_def
proof (rule hoare_seq [where R = "\<lambda>s. previousVersionOf e s = pv"])
  show "hoare (\<lambda>s. previousVersionOf e s = pv) (emit (Log LogWarn notIncrementedWarning))
          (\<lambda>_ s. previousVersionOf e s = pv)"
    by (rule hoare_emit) simp
next
  show "hoare (\<lambda>s. previousVersionOf e s = pv)
          (andThen (getCurrentVersion e (getLatestRelease (gitClient e)))
             (\<lambda>current. if parse (semver e) (strOf current)
                then emit (Log LogWarn (''Published version would be: ''
                             @ inc (semver e) (strOf current) v))
                else ret ()))
          (\<lambda>_ s. Log LogWarn (''Published version would be: '' @ inc (semver e) cur v)
                  \<in> set (events s))"
  proof (rule hoare_andThen [OF getCurrentVersion_value [of e pv]])
    fix x
    show "hoare (\<lambda>s. x = Some (if parse (semver e) (getLatestRelease (gitClient e))
                                  \<and> parse (semver e) pv
                                  \<and> gt (semver e) (getLatestRelease (gitClient e)) pv
                               then getLatestRelease (gitClient e) else pv)
                      \<and> previousVersionOf e s = pv)
            (if parse (semver e) (strOf x)
             then emit (Log LogWarn (''Published version would be: ''
                          @ inc (semver e) (strOf x) v))
             else ret ())
            (\<lambda>_ s. Log LogWarn (''Published version would be: '' @ inc (semver e) cur v)
                    \<in> set (events s))"
    proof (cases "x = Some cur")
      case True
      with parses show ?thesis
        by (simp add: strOf_def hoare_emit)
    next
      case False
      with cur show ?thesis
        by (intro hoareI) simp
    qed
  qed
qed

lemma hoare_grows:
  "preserves (\<lambda>s. filter ((=) ev) (events s)) m \<Longrightarrow> hoare (\<lambda>s. ev \<in> set (events s)) m (\<lambda>_ s. ev \<in> set (events s))"
proof (rule hoareI)
  fix s x s'
  assume p: "preserves (\<lambda>s. filter ((=) ev) (events s)) m" and "ev \<in> set (events s)"
    and run: "m s = (Inr x, s')"
  then have "filter ((=) ev) (events s) \<noteq> []"
    by (simp add: filter_empty_conv)
  with preservesD [OF p, of s] run have "filter ((=) ev) (events s') \<noteq> []" by simp
  then show "ev \<in> set (events s')"
    by (auto simp: filter_empty_conv)
qed

lemma publishVersion_reports:
  assumes dry: "o_dryRun opts"
    and cur: "cur = (if parse (semver e) (getLatestRelease (gitClient e)) \<and> parse (semver e) pv
                        \<and> gt (semver e) (getLatestRelease (gitClient e)) pv
                     then getLatestRelease (gitClient e) else pv)"
    and parses: "parse (semver e) cur"
  shows "hoare (\<lambda>s. previousVersionOf e s = pv) (publishVersion e opts v)
           (\<lambda>_ s. Log LogWarn (''Published version would be: '' @ inc (semver e) cur v)
                   \<in> set (events s))"
proof -
  let ?P = "\<lambda>s. previousVersionOf e s = pv"
  let ?Q = "\<lambda>s. Log LogWarn (''Published version would be: '' @ inc (semver e) cur v)
                   \<in> set (events s)"
  have keep: "hoare ?P m (\<lambda>_. ?P)" if "preserves (previousVersionOf e) m" for m :: "'a action"
    using hoare_preserves [OF that, of "\<lambda>x. x = pv"] .
  have emits: "hoare ?P (emit ev) (\<lambda>_. ?P)" for ev
    by (rule hoare_emit) simp
  have last: "hoare ?P (seq (if o_dryRun opts then reportDryRun e v else ret ()) (ret r))
                (\<lambda>_. ?Q)" for r :: "(string option \<times> commit list) option"
  proof (rule hoare_seq [where R = ?Q])
    show "hoare ?P (if o_dryRun opts then reportDryRun e v else ret ()) (\<lambda>_. ?Q)"
      using dry reportDryRun_reports [OF cur parses] by simp
    show "hoare ?Q (ret r) (\<lambda>_. ?Q)"
      by (rule hoare_ret)
  qed
  show ?thesis
    unfolding publishVersion_def
  proof (intro hoare_seq [where R = ?P] emits)
    show "hoare ?P (makeChangelog e opts) (\<lambda>_. ?P)"
      by (rule keep [OF makeChangelog_previous])
    show "hoare ?P (if \<not> o_dryRun opts then versionAndPublish v else ret ()) (\<lambda>_. ?P)"
      using dry by (simp add: hoare_ret)
    show "hoare ?P
            (andThen (makeRelease e opts) (\<lambda>newVersion.
               seq (if o_dryRun opts then reportDryRun e v else ret ())
                   (ret (Some (newVersion, getCommitsInRelease (releaseHelper e)
                                  (getLatestRelease (gitClient e)) None)))))
            (\<lambda>_. ?Q)"
      by (rule hoare_andThen [OF keep [OF makeRelease_previous]]) (rule last)
  qed
qed

lemma publishLatest_reports:
  assumes dry: "o_dryRun opts"
    and bump: "getSemverBump (releaseHelper e) (getLatestRelease (gitClient e)) None \<noteq> []"
    and cur: "cur = (if parse (semver e) (getLatestRelease (gitClient e)) \<and> parse (semver e) pv
                        \<and> gt (semver e) (getLatestRelease (gitClient e)) pv
                     then getLatestRelease (gitClient e) else pv)"
    and parses: "parse (semver e) cur"
  shows "hoare (\<lambda>s. previousVersionOf e s = pv) (publishLatest e opts)
           (\<lambda>_ s. Log LogWarn (''Published version would be: ''
                      @ inc (semver e) cur
                          (getSemverBump (releaseHelper e) (getLatestRelease (gitClient e)) None))
                   \<in> set (events s))"
  unfolding publishLatest_def
proof (rule hoare_withState, rule hoare_if)
  fix s0
  show "hoare (\<lambda>s. s = s0 \<and> previousVersionOf e s = pv) (throw createErrorMessage)
          (\<lambda>_ s. Log LogWarn (''Published version would be: ''
                      @ inc (semver e) cur
                          (getSemverBump (releaseHelper e) (getLatestRelease (gitClient e)) None))
                   \<in> set (events s))"
    by (rule hoare_throw)
next
  fix s0
  show "hoare (\<lambda>s. s = s0 \<and> previousVersionOf e s = pv)
          (andThen (getVersion e None) (\<lambda>version.
             if version = [] then seq (emit (Log LogInfo ''No version published.'')) (ret None)
             else publishVersion e opts version))
          (\<lambda>_ s. Log LogWarn (''Published version would be: ''
                      @ inc (semver e) cur
                          (getSemverBump (releaseHelper e) (getLatestRelease (gitClient e)) None))
                   \<in> set (events s))"
  proof (rule hoare_andThen)
    show "hoare (\<lambda>s. s = s0 \<and> previousVersionOf e s = pv) (getVersion e None)
            (\<lambda>v s. v = getSemverBump (releaseHelper e) (getLatestRelease (gitClient e)) None
                   \<and> previousVersionOf e s = pv)"
      by (rule hoare_weaken [OF getVersion_value [of e pv]]) simp_all
  next
    fix x
    show "hoare (\<lambda>s. x = getSemverBump (releaseHelper e) (getLatestRelease (gitClient e)) None
                     \<and> previousVersionOf e s = pv)
            (if x = [] then seq (emit (Log LogInfo ''No version published.'')) (ret None)
             else publishVersion e opts x)
            (\<lambda>_ s. Log LogWarn (''Published version would be: ''
                      @ inc (semver e) cur
                          (getSemverBump (releaseHelper e) (getLatestRelease (gitClient e)) None))
                   \<in> set (events s))"
    proof (cases "x = getSemverBump (releaseHelper e) (getLatestRelease (gitClient e)) None")
      case True
      with bump show ?thesis
        using hoare_weaken [OF publishVersion_reports [OF dry cur parses, of x]] by simp
    next
      case False
      then show ?thesis by (intro hoareI) simp
    qed
  qed
qed

lemma currentVersionOf_events [simp]:
  "currentVersionOf e (s\<lparr>events := evs\<rparr>) l = currentVersionOf e s l"
  by (simp add: currentVersionOf_def)

text \<open>
  Claim C7, as amended.  In a dry run of \<open>shipit\<close>, of \<open>canary\<close>, of \<open>changelog\<close> and of
  \<open>release\<close>, no event of the kinds \<open>isMutation\<close> lists is added: the version, afterVersion,
  publish and afterPublish hook points are not fired, the changelog is neither written nor
  committed (nor are its two hook points fired), no release object is created and the
  canary hook is not called.  On the base branch, when a bump is warranted, the current
  version parses as a semantic version and the run returns, the dry run of \<open>shipit\<close> reports
  the would-be incremented version.
\<close>

theorem dry_run_suppresses:
  assumes dry: "o_dryRun opts"
  shows "filter isMutation (events (snd (shipit e opts s))) = filter isMutation (events s)
    \<and> filter isMutation (events (snd (canary e opts s))) = filter isMutation (events s)
    \<and> filter isMutation (events (snd (changelog e opts s))) = filter isMutation (events s)
    \<and> filter isMutation (events (snd (runRelease e opts s))) = filter isMutation (events s)
    \<and> (\<not> env_isPr (ci e) \<and> env_branch (ci e) = Some (Some (baseBranch e))
        \<and> getSemverBump (releaseHelper e) (getLatestRelease (gitClient e)) None \<noteq> []
        \<and> parse (semver e) (currentVersionOf e s (getLatestRelease (gitClient e)))
        \<and> fst (shipit e opts s) = Inr ()
        \<longrightarrow> Log LogWarn (''Published version would be: ''
               @ inc (semver e) (currentVersionOf e s (getLatestRelease (gitClient e)))
                   (getSemverBump (releaseHelper e) (getLatestRelease (gitClient e)) None))
            \<in> set (events (snd (shipit e opts s))))"
proof (intro conjI impI)
  show "filter isMutation (events (snd (shipit e opts s))) = filter isMutation (events s)"
    using preservesD [OF shipit_dry [OF dry]] .
  show "filter isMutation (events (snd (canary e opts s))) = filter isMutation (events s)"
    using preservesD [OF canary_dry [OF dry]] .
  show "filter isMutation (events (snd (changelog e opts s))) = filter isMutation (events s)"
    unfolding changelog_def using preservesD [OF makeChangelog_dry [OF dry]] .
  have "preserves (\<lambda>s. filter isMutation (events s)) (runRelease e opts)"
    unfolding runRelease_def by (intro preserves_intros makeRelease_dry [OF dry])
  then show "filter isMutation (events (snd (runRelease e opts s))) = filter isMutation (events s)"
    by (rule preservesD)
next
  let ?last = "getLatestRelease (gitClient e)"
  let ?bump = "getSemverBump (releaseHelper e) ?last None"
  let ?report = "Log LogWarn (''Published version would be: ''
                   @ inc (semver e) (currentVersionOf e s ?last) ?bump)"
  assume a: "\<not> env_isPr (ci e) \<and> env_branch (ci e) = Some (Some (baseBranch e))
        \<and> ?bump \<noteq> [] \<and> parse (semver e) (currentVersionOf e s ?last)
        \<and> fst (shipit e opts s) = Inr ()"
  then obtain s' where run: "shipit e opts s = (Inr (), s')"
    by (cases "shipit e opts s") simp
  have cur: "currentVersionOf e s ?last
      = (if parse (semver e) ?last \<and> parse (semver e) (previousVersionOf e s)
            \<and> gt (semver e) ?last (previousVersionOf e s)
         then ?last else previousVersionOf e s)"
    by (simp add: currentVersionOf_def)
  have latest: "hoare (\<lambda>t. previousVersionOf e t = previousVersionOf e s) (publishLatest e opts)
                  (\<lambda>_ t. ?report \<in> set (events t))"
    using publishLatest_reports [OF dry _ cur] a by simp
  have "hoare (\<lambda>t. previousVersionOf e t = previousVersionOf e s) (shipit e opts)
          (\<lambda>_ t. ?report \<in> set (events t))"
    unfolding shipit_def
  proof (rule hoare_withState, rule hoare_if)
    fix s0
    show "hoare (\<lambda>t. t = s0 \<and> previousVersionOf e t = previousVersionOf e s)
            (throw createErrorMessage) (\<lambda>_ t. ?report \<in> set (events t))"
      by (rule hoare_throw)
    show "hoare (\<lambda>t. t = s0 \<and> previousVersionOf e t = previousVersionOf e s)
            (seq (emit (Hook BeforeShipIt))
               (andThen (if \<not> env_isPr (ci e) \<and> env_branch (ci e) = Some (Some (baseBranch e))
                         then publishLatest e opts else canary e opts)
                  (\<lambda>publishInfo. case publishInfo of
                       None \<Rightarrow> ret ()
                     | Some info \<Rightarrow> emit (Hook (AfterShipIt (fst info) (snd info))))))
            (\<lambda>_ t. ?report \<in> set (events t))"
    proof (rule hoare_seq [where R = "\<lambda>t. previousVersionOf e t = previousVersionOf e s"])
      show "hoare (\<lambda>t. t = s0 \<and> previousVersionOf e t = previousVersionOf e s)
              (emit (Hook BeforeShipIt))
              (\<lambda>_ t. previousVersionOf e t = previousVersionOf e s)"
        by (rule hoare_emit) simp
      show "hoare (\<lambda>t. previousVersionOf e t = previousVersionOf e s)
              (andThen (if \<not> env_isPr (ci e) \<and> env_branch (ci e) = Some (Some (baseBranch e))
                         then publishLatest e opts else canary e opts)
                  (\<lambda>publishInfo. case publishInfo of
                       None \<Rightarrow> ret ()
                     | Some info \<Rightarrow> emit (Hook (AfterShipIt (fst info) (snd info)))))
              (\<lambda>_ t. ?report \<in> set (events t))"
      proof (rule hoare_andThen [where R = "\<lambda>_ t. ?report \<in> set (events t)"])
        show "hoare (\<lambda>t. previousVersionOf e t = previousVersionOf e s)
                (if \<not> env_isPr (ci e) \<and> env_branch (ci e) = Some (Some (baseBranch e))
                 then publishLatest e opts else canary e opts)
                (\<lambda>_ t. ?report \<in> set (events t))"
          using a latest by simp
        fix x :: "(string option \<times> commit list) option"
        show "hoare (\<lambda>t. ?report \<in> set (events t))
                (case x of None \<Rightarrow> ret ()
                 | Some info \<Rightarrow> emit (Hook (AfterShipIt (fst info) (snd info))))
                (\<lambda>_ t. ?report \<in> set (events t))"
          by (cases x) (simp_all add: hoare_ret hoare_emit)
      qed
    qed
  qed
  from hoareD [OF this _ run] show "?report \<in> set (events (snd (shipit e opts s)))"
    using run by simp
qed

theorem dry_run_suppresses_witness:
  "o_dryRun dryOptions
   \<and> filter isMutation (events (snd (shipit exEnv dryOptions readyWorld))) = []
   \<and> Log LogWarn ''Published version would be: 1.1.0''
       \<in> set (events (snd (shipit exEnv dryOptions readyWorld)))"
proof -
  have dry: "o_dryRun dryOptions"
    by (simp add: dryOptions_def exOptions_def)
  have base: "\<not> env_isPr (ci exEnv) \<and> env_branch (ci exEnv) = Some (Some (baseBranch exEnv))"
    by (simp add: exEnv_def exCi_def)
  have bump: "getSemverBump (releaseHelper exEnv) (getLatestRelease (gitClient exEnv)) None
                = ''minor''"
    by (simp add: exEnv_def exRelease_def)
  have cur: "currentVersionOf exEnv readyWorld (getLatestRelease (gitClient exEnv)) = ''v1.0.0''"
    by code_simp
  have parses: "parse (semver exEnv) ''v1.0.0''"
    by code_simp
  have inc: "inc (semver exEnv) ''v1.0.0'' ''minor'' = ''1.1.0''"
    by code_simp
  have returns: "fst (shipit exEnv dryOptions readyWorld) = Inr ()"
    by code_simp
  have start: "events readyWorld = []"
    by (simp add: readyWorld_def newWorld_def)
  from dry_run_suppresses [OF dry, of exEnv readyWorld] base bump cur parses inc returns start
  show ?thesis
    using dry by simp
qed

theorem dry_run_report_counterexample:
  "o_dryRun dryOptions
   \<and> \<not> env_isPr (ci exEnv) \<and> env_branch (ci exEnv) = Some (Some (baseBranch exEnv))
   \<and> getSemverBump (releaseHelper exEnv) (getLatestRelease (gitClient exEnv)) None = ''minor''
   \<and> fst (shipit exEnv dryOptions nightlyWorld) = Inr ()
   \<and> filter isVersionReport (events (snd (shipit exEnv dryOptions nightlyWorld))) = []"
  by code_simp

section \<open>A release of the version that is already released\<close>

lemma getCurrentVersion_eq:
  "getCurrentVersion e l s =
     (Inr (Some (currentVersionOf e s l)),
      s\<lparr>theHooks := (theHooks s)\<lparr>getPreviousVersion := getPreviousVersion (theHooks s)
           @ [(''None'', (\<lambda>_. Some (prefixRelease (releaseHelper e) ''0.0.0'')))]\<rparr>,
        events := events s @ [Hook GetPreviousVersion]\<rparr>)"
proof (cases "firstDefined (map (\<lambda>tap. snd tap (prefixRelease (releaseHelper e)))
                             (getPreviousVersion (theHooks s))) None")
  case None
  then show ?thesis
    by (simp add: getCurrentVersion_def seq_def andThen_def modify_def emit_def withState_def
        ret_def currentVersionOf_def previousVersionOf_def firstDefined_append)
next
  case (Some v)
  then show ?thesis
    by (simp add: getCurrentVersion_def seq_def andThen_def modify_def emit_def withState_def
        ret_def currentVersionOf_def previousVersionOf_def firstDefined_append)
qed

lemma fromOrLatestRelease_eq:
  "fromOrLatestRelease e f t =
     (Inr (if truthy f then strOf f else getLatestRelease (gitClient e)),
      t\<lparr>events := events t @ (if truthy f then [] else [Git GetLatestRelease])\<rparr>)"
  by (simp add: fromOrLatestRelease_def seq_def andThen_def emit_def ret_def)

lemma rawVersionOf_given:
  "truthy (o_useVersion opts) \<Longrightarrow> rawVersionOf e opts l t = (Inr (o_useVersion opts), t)"
  by (simp add: rawVersionOf_def ret_def)

lemma rawVersionOf_current:
  "\<not> truthy (o_useVersion opts) \<Longrightarrow> currentVersionOf e t l \<noteq> []
   \<Longrightarrow> rawVersionOf e opts l t =
       (Inr (Some (currentVersionOf e t l)),
        t\<lparr>theHooks := (theHooks t)\<lparr>getPreviousVersion := getPreviousVersion (theHooks t)
             @ [(''None'', (\<lambda>_. Some (prefixRelease (releaseHelper e) ''0.0.0'')))]\<rparr>,
          events := events t @ [Hook GetPreviousVersion]\<rparr>)"
  by (simp add: rawVersionOf_def andThen_def getCurrentVersion_eq ret_def truthy_def)

lemma releaseVersion_same:
  "\<not> o_dryRun opts \<Longrightarrow> rv \<noteq> []
   \<Longrightarrow> nv = (if parse (semver e) rv then prefixRelease (releaseHelper e) rv else rv)
   \<Longrightarrow> parse (semver e) nv \<Longrightarrow> parse (semver e) l \<Longrightarrow> eq (semver e) nv l
   \<Longrightarrow> releaseVersion e opts l cs n (Some rv) t =
       (Inr None, t\<lparr>events := events t @ [Log LogWarn (sameVersionWarning nv)]\<rparr>)"
  by (cases "parse (semver e) rv")
    (simp_all add: releaseVersion_def truthy_def strOf_def Let_def seq_def andThen_def emit_def
      ret_def)

text \<open>
  Claim C2, as amended.  In a run of \<open>makeRelease\<close> that is no dry run, on an initialised
  engine: when the new version (the given one or else the current one, prefixed when it
  parses) and the last release both parse as semantic versions and are equal as such, the
  run logs the warning that nothing is released and returns no version; the release object
  is not created and the \<open>afterRelease\<close> hook point is not fired.  The events of the run are
  exactly the ones listed.
\<close>

theorem makeRelease_same_version:
  assumes init: "hasGit s" "hasRelease s"
    and wet: "\<not> o_dryRun opts"
    and last: "lastRelease = lastReleaseTag e (if truthy (o_from opts) then strOf (o_from opts)
                                             else getLatestRelease (gitClient e))"
    and raw: "rawVersion = (if truthy (o_useVersion opts) then strOf (o_useVersion opts)
                            else currentVersionOf e s lastRelease)"
    and some: "rawVersion \<noteq> []"
    and new: "newVersion = (if parse (semver e) rawVersion
                            then prefixRelease (releaseHelper e) rawVersion else rawVersion)"
    and same: "parse (semver e) newVersion" "parse (semver e) lastRelease"
      "eq (semver e) newVersion lastRelease"
  shows "fst (makeRelease e opts s) = Inr None
    \<and> events (snd (makeRelease e opts s)) =
        events s
        @ (if truthy (o_from opts) then [] else [Git GetLatestRelease])
        @ [Log LogInfo (''Last used release: '' @ lastRelease),
           Release (GetCommitsInRelease lastRelease None),
           Release (GenerateReleaseNotes lastRelease None (versionBump s)),
           Log LogInfo (''Using release notes:'' @ [newline]
             @ generateReleaseNotes (releaseHelper e) lastRelease None (versionBump s))]
        @ (if truthy (o_useVersion opts) then [] else [Hook GetPreviousVersion])
        @ [Log LogWarn (sameVersionWarning newVersion)]
    \<and> filter isReleaseStep (events (snd (makeRelease e opts s))) = filter isReleaseStep (events s)"
proof -
  note rel = releaseVersion_same [OF wet some new same]
  have run: "fst (makeRelease e opts s) = Inr None
    \<and> events (snd (makeRelease e opts s)) =
        events s
        @ (if truthy (o_from opts) then [] else [Git GetLatestRelease])
        @ [Log LogInfo (''Last used release: '' @ lastRelease),
           Release (GetCommitsInRelease lastRelease None),
           Release (GenerateReleaseNotes lastRelease None (versionBump s)),
           Log LogInfo (''Using release notes:'' @ [newline]
             @ generateReleaseNotes (releaseHelper e) lastRelease None (versionBump s))]
        @ (if truthy (o_useVersion opts) then [] else [Hook GetPreviousVersion])
        @ [Log LogWarn (sameVersionWarning newVersion)]"
  proof (cases "truthy (o_useVersion opts)")
    case True
    with raw have given: "o_useVersion opts = Some rawVersion"
      by (cases "o_useVersion opts") (simp_all add: truthy_def strOf_def)
    from True init show ?thesis
      by (simp add: makeRelease_def withState_def fromOrLatestRelease_eq seq_def andThen_def
          emit_def rawVersionOf_given given rel last [symmetric])
  next
    case False
    with raw have cur: "currentVersionOf e s lastRelease = rawVersion"
      by simp
    from False init show ?thesis
      by (simp add: makeRelease_def withState_def fromOrLatestRelease_eq seq_def andThen_def
          emit_def rawVersionOf_current cur some rel last [symmetric])
  qed
  then show ?thesis by simp
qed

theorem makeRelease_same_version_witness:
  "fst (makeRelease exEnv exOptions readyWorld) = Inr None
   \<and> events (snd (makeRelease exEnv exOptions readyWorld)) =
       [Git GetLatestRelease,
        Log LogInfo ''Last used release: v1.0.0'',
        Release (GetCommitsInRelease ''v1.0.0'' None),
        Release (GenerateReleaseNotes ''v1.0.0'' None None),
        Log LogInfo (''Using release notes:'' @ [newline] @ ''notes''),
        Hook GetPreviousVersion,
        Log LogWarn (sameVersionWarning ''v1.0.0'')]"
proof -
  have init: "hasGit readyWorld" "hasRelease readyWorld"
    by (simp_all add: readyWorld_def newWorld_def)
  have wet: "\<not> o_dryRun exOptions"
    by (simp add: exOptions_def)
  have last: "''v1.0.0'' = lastReleaseTag exEnv
                (if truthy (o_from exOptions) then strOf (o_from exOptions)
                 else getLatestRelease (gitClient exEnv))"
    by code_simp
  have raw: "''v1.0.0'' = (if truthy (o_useVersion exOptions) then strOf (o_useVersion exOptions)
                           else currentVersionOf exEnv readyWorld ''v1.0.0'')"
    by code_simp
  have new: "''v1.0.0'' = (if parse (semver exEnv) ''v1.0.0''
                           then prefixRelease (releaseHelper exEnv) ''v1.0.0'' else ''v1.0.0'')"
    by code_simp
  have same: "parse (semver exEnv) ''v1.0.0''" "eq (semver exEnv) ''v1.0.0'' ''v1.0.0''"
    by code_simp+
  have "truthy (o_from exOptions) = False" "truthy (o_useVersion exOptions) = False"
    "versionBump readyWorld = None" "events readyWorld = []"
    "generateReleaseNotes (releaseHelper exEnv) ''v1.0.0'' None None = ''notes''"
    by (simp_all add: exOptions_def truthy_def readyWorld_def newWorld_def exEnv_def
        exRelease_def)
  with makeRelease_same_version [OF init wet last raw _ new same(1) same(1) same(2)]
  show ?thesis by simp
qed

theorem makeRelease_same_version_counterexample:
  "\<not> o_dryRun exOptions
   \<and> fst (makeRelease exEnv exOptions readyWorld) = Inr None
   \<and> last (events (snd (makeRelease exEnv exOptions readyWorld)))
       = Log LogWarn (sameVersionWarning (getLatestRelease (gitClient exEnv)))
   \<and> filter isReleaseStep (events (snd (makeRelease exEnv exOptions readyWorld))) = []"
  by code_simp

section \<open>The canary command\<close>

text \<open>
  Claim C5, as amended.  On an initialised engine (the git client and the release helper
  exist), when no handler is tapped on the \<open>canary\<close> hook point, the \<open>canary\<close> command logs
  the error that no plugin implements canary releases and exits the process with code 1;
  nothing else happens before: the only event of the run is that log entry.  On an engine
  that is not initialised the command throws the initialisation error and has no event.
\<close>

theorem canary_without_handler:
  "(hasGit s \<and> hasRelease s \<and> canaryTaps (theHooks s) = []
      \<longrightarrow> canary e opts s =
            (Inl (ProcessExit 1), s\<lparr>events := events s @ [Log LogError noCanaryPluginMessage]\<rparr>))
   \<and> (\<not> (hasGit s \<and> hasRelease s)
      \<longrightarrow> canary e opts s = (Inl (Thrown createErrorMessage), s))"
  by (simp add: canary_def withState_def throw_def seq_def andThen_def emit_def exitProcess_def)

theorem canary_without_handler_witness:
  "canaryTaps (theHooks readyWorld) = []
   \<and> fst (canary exEnv exOptions readyWorld) = Inl (ProcessExit 1)
   \<and> events (snd (canary exEnv exOptions readyWorld)) = [Log LogError noCanaryPluginMessage]
   \<and> fst (canary exEnv exOptions newWorld) = Inl (Thrown createErrorMessage)
   \<and> events (snd (canary exEnv exOptions newWorld)) = []"
  using canary_without_handler [of readyWorld exEnv exOptions]
    canary_without_handler [of newWorld exEnv exOptions]
  by (simp add: readyWorld_def newWorld_def noHooks_def)

theorem canary_without_handler_counterexample:
  "canaryTaps (theHooks newWorld) = []
   \<and> fst (canary exEnv exOptions newWorld) = Inl (Thrown createErrorMessage)
   \<and> filter ((=) (Log LogError noCanaryPluginMessage)) (events (snd (canary exEnv exOptions newWorld))) = []"
  by (simp add: canary_def withState_def throw_def newWorld_def noHooks_def)

section \<open>The canary suffix\<close>

text \<open>
  Claim C4.  Whatever the request number, the build id and the short sha are: when the
  request number and the build id are both known (truthy), the suffix is a dot, the request
  number, a dot and the build id; when exactly one of the two is known, it is a dot, that
  value, a dot and the short sha; when neither is known, it is a dot and the short sha.
\<close>

theorem canarySuffix_cases:
  "canarySuffix pr build sha =
     (if truthy pr \<and> truthy build then ''.'' @ strOf pr @ ''.'' @ strOf build
      else if truthy pr then ''.'' @ strOf pr @ ''.'' @ sha
      else if truthy build then ''.'' @ strOf build @ ''.'' @ sha
      else ''.'' @ sha)"
  by (simp add: canarySuffix_def Let_def)

theorem canarySuffix_cases_witness:
  "canarySuffix (Some ''42'') (Some ''7'') ''abc1234'' = ''.42.7''
   \<and> canarySuffix (Some ''42'') None ''abc1234'' = ''.42.abc1234''
   \<and> canarySuffix None (Some ''7'') ''abc1234'' = ''.7.abc1234''
   \<and> canarySuffix None None ''abc1234'' = ''.abc1234''"
  using canarySuffix_cases [of "Some ''42''" "Some ''7''" "''abc1234''"]
    canarySuffix_cases [of "Some ''42''" None "''abc1234''"]
    canarySuffix_cases [of None "Some ''7''" "''abc1234''"]
    canarySuffix_cases [of None None "''abc1234''"]
  by (simp add: truthy_def strOf_def)

text \<open>
  Claim C6.  In a run of \<open>canary\<close> that is no dry run, on an initialised engine, when the
  result of the \<open>canary\<close> hook point is a structured failure, the command logs the message
  of the failure as a warning and returns nothing, without throwing.  Nothing follows the
  warning: the body of the request is not updated and no success is reported.
\<close>

theorem canary_structured_failure:
  assumes init: "hasGit s" "hasRelease s"
    and wet: "\<not> o_dryRun opts"
    and failed: "firstDefined (map (\<lambda>tap. snd tap (canaryBump e s) (canaryVersion e opts))
                                (canaryTaps (theHooks s))) None = Some (Failure err)"
  shows "canary e opts s =
           (Inr None,
            s\<lparr>events := events s
                 @ [Release (GetCommitsInRelease ''HEAD^'' None)]
                 @ (if \<not> truthy (canaryPr e opts) \<or> \<not> truthy (canaryBuild e opts)
                    then [Git (GetSha True)] else [])
                 @ [Hook (Canary (canaryBump e s) (canaryVersion e opts)),
                    Log LogWarn err]\<rparr>)"
proof -
  from failed have used: "canaryTaps (theHooks s) \<noteq> []"
    by auto
  with init wet failed show ?thesis
    by (simp add: canary_def withState_def seq_def andThen_def emit_def ret_def)
qed

theorem canary_structured_failure_witness:
  "canary exEnv exOptions failingCanaryWorld
   = (Inr None,
      failingCanaryWorld
        \<lparr>events := [Release (GetCommitsInRelease ''HEAD^'' None), Git (GetSha True),
                    Hook (Canary ''patch'' ''.abc1234''), Log LogWarn ''no access'']\<rparr>)"
proof -
  have init: "hasGit failingCanaryWorld" "hasRelease failingCanaryWorld"
    by (simp_all add: failingCanaryWorld_def readyWorld_def newWorld_def)
  have wet: "\<not> o_dryRun exOptions"
    by (simp add: exOptions_def)
  have failed: "firstDefined
       (map (\<lambda>tap. snd tap (canaryBump exEnv failingCanaryWorld) (canaryVersion exEnv exOptions))
            (canaryTaps (theHooks failingCanaryWorld))) None = Some (Failure ''no access'')"
    by (simp add: failingCanaryWorld_def noHooks_def)
  have vals: "canaryBump exEnv failingCanaryWorld = ''patch''"
    "canaryVersion exEnv exOptions = ''.abc1234''"
    "truthy (canaryPr exEnv exOptions) = False"
    by code_simp+
  have "events failingCanaryWorld = []"
    by (simp add: failingCanaryWorld_def readyWorld_def newWorld_def)
  with canary_structured_failure [OF init wet failed] vals show ?thesis
    by simp
qed

lemma reportCanary_keeps_hooks:
  "preserves (\<lambda>s. filter ((=) (Hook h)) (events s)) (reportCanary e opts pr nv)"
  unfolding reportCanary_def prBody_def getPrNumber_def
  by (intro preserves_intros) simp_all

lemma canaryCommits_keeps_hooks:
  "preserves (\<lambda>s. filter ((=) (Hook h)) (events s)) (canaryCommits e)"
  unfolding canaryCommits_def
  by (intro preserves_intros) simp_all

lemma preserves_case_canary:
  "(\<And>x. preserves g (a x)) \<Longrightarrow> (\<And>x. preserves g (b x))
   \<Longrightarrow> preserves g (case r of Published x \<Rightarrow> a x | Failure x \<Rightarrow> b x)"
  by (cases r) simp_all

lemma prBody_keeps:
  "(\<And>m n c. \<not> P (Git (AddToPrBody m n c))) \<Longrightarrow> (\<And>l m. \<not> P (Log l m))
   \<Longrightarrow> preserves (\<lambda>s. filter P (events s)) (prBody e options)"
  unfolding prBody_def getPrNumber_def
  by (intro preserves_intros) simp_all

lemma reportCanary_keeps_log:
  "preserves (\<lambda>s. filter ((=) (Log LogInfo ''No version published.'')) (events s))
     (reportCanary e opts pr nv)"
  unfolding reportCanary_def prBody_def getPrNumber_def
  by (intro preserves_intros) simp_all

lemma canaryCommits_keeps_log:
  "preserves (\<lambda>s. filter ((=) (Log l m)) (events s)) (canaryCommits e)"
  unfolding canaryCommits_def
  by (intro preserves_intros) simp_all

text \<open>
  Claim C10.  When the bump computed from the labels of the commits since \<open>HEAD^\<close> is the
  empty sentinel, the \<open>canary\<close> command goes on with the bump \<open>patch\<close>: the whole run is
  the run for an engine whose computation answers \<open>patch\<close>, and, on an initialised engine
  with a handler on the hook point, outside of a dry run, the hook point is fired exactly
  once, with \<open>patch\<close> and the canary suffix.  The run never logs that no version is
  published.
\<close>

theorem canary_bump_defaults_to_patch:
  assumes none: "headBump e s = []"
  shows "canaryBump e s = SEMVER_patch
    \<and> canary e opts s
        = canary (e\<lparr>releaseHelper := (releaseHelper e)\<lparr>calculateSemVerBump :=
                      (\<lambda>ls c. SEMVER_patch)\<rparr>\<rparr>) opts s
    \<and> (hasGit s \<and> hasRelease s \<and> canaryTaps (theHooks s) \<noteq> [] \<and> \<not> o_dryRun opts
       \<longrightarrow> filter ((=) (Hook (Canary SEMVER_patch (canaryVersion e opts))))
             (events (snd (canary e opts s)))
           = filter ((=) (Hook (Canary SEMVER_patch (canaryVersion e opts)))) (events s)
             @ [Hook (Canary SEMVER_patch (canaryVersion e opts))])
    \<and> filter ((=) (Log LogInfo ''No version published.'')) (events (snd (canary e opts s)))
        = filter ((=) (Log LogInfo ''No version published.'')) (events s)"
proof (intro conjI impI)
  from none show patch: "canaryBump e s = SEMVER_patch"
    by (simp add: canaryBump_def)
  let ?e = "e\<lparr>releaseHelper := (releaseHelper e)\<lparr>calculateSemVerBump := (\<lambda>ls c. SEMVER_patch)\<rparr>\<rparr>"
  have bump: "canaryBump ?e s = SEMVER_patch"
    by (simp add: canaryBump_def headBump_def SEMVER_patch_def)
  have same: "ci ?e = ci e" "gitClient ?e = gitClient e"
    "getCommits (releaseHelper ?e) = getCommits (releaseHelper e)"
    by simp_all
  have version: "canaryVersion ?e opts = canaryVersion e opts"
    "canaryPr ?e opts = canaryPr e opts" "canaryBuild ?e opts = canaryBuild e opts"
    unfolding canaryVersion_def canaryPr_def canaryBuild_def same by (rule refl)+
  have commits: "canaryCommits ?e = canaryCommits e"
    unfolding canaryCommits_def same by (rule refl)
  have report: "reportCanary ?e opts p v = reportCanary e opts p v" for p v
    unfolding reportCanary_def prBody_def same by (rule refl)
  show "canary e opts s = canary ?e opts s"
    unfolding canary_def withState_def bump patch version commits report by (rule refl)
next
  let ?hook = "Hook (Canary SEMVER_patch (canaryVersion e opts))"
  assume a: "hasGit s \<and> hasRelease s \<and> canaryTaps (theHooks s) \<noteq> [] \<and> \<not> o_dryRun opts"
  from none have patch: "canaryBump e s = SEMVER_patch"
    by (simp add: canaryBump_def)
  have rest: "preserves (\<lambda>t. filter ((=) ?hook) (events t))
     (case firstDefined (map (\<lambda>tap. snd tap SEMVER_patch (canaryVersion e opts))
                            (canaryTaps (theHooks s))) None of
        None \<Rightarrow> seq (reportCanary e opts (canaryPr e opts) None)
                  (andThen (canaryCommits e) (\<lambda>commitsInRelease.
                     ret (Some (None, commitsInRelease))))
      | Some (Published newVersion) \<Rightarrow>
          seq (reportCanary e opts (canaryPr e opts) (Some newVersion))
              (andThen (canaryCommits e) (\<lambda>commitsInRelease.
                 ret (Some (Some newVersion, commitsInRelease))))
      | Some (Failure err) \<Rightarrow> seq (emit (Log LogWarn err)) (ret None))"
    by (intro preserves_intros preserves_case_canary reportCanary_keeps_hooks
        canaryCommits_keeps_hooks) simp_all
  from a patch preservesD [OF rest]
  show "filter ((=) ?hook) (events (snd (canary e opts s)))
          = filter ((=) ?hook) (events s) @ [?hook]"
    by (simp add: canary_def withState_def seq_def andThen_def emit_def ret_def)
next
  have "preserves (\<lambda>t. filter ((=) (Log LogInfo ''No version published.'')) (events t))
          (canary e opts)"
    unfolding canary_def
    by (intro preserves_intros reportCanary_keeps_log canaryCommits_keeps_log
        preserves_case_canary) simp_all
  then show "filter ((=) (Log LogInfo ''No version published.'')) (events (snd (canary e opts s)))
        = filter ((=) (Log LogInfo ''No version published.'')) (events s)"
    by (rule preservesD)
qed

theorem canary_bump_defaults_to_patch_witness:
  "headBump exEnv canaryWorld = []
   \<and> canaryBump exEnv canaryWorld = ''patch''
   \<and> filter ((=) (Hook (Canary ''patch'' ''.abc1234'')))
        (events (snd (canary exEnv exOptions canaryWorld)))
      = [Hook (Canary ''patch'' ''.abc1234'')]
   \<and> fst (canary exEnv exOptions canaryWorld) = Inr (Some (Some ''1.0.1-canary.abc1234'', [exCommit]))"
proof -
  have none: "headBump exEnv canaryWorld = []"
    by code_simp
  have ready: "hasGit canaryWorld \<and> hasRelease canaryWorld
      \<and> canaryTaps (theHooks canaryWorld) \<noteq> [] \<and> \<not> o_dryRun exOptions"
    by (simp add: canaryWorld_def readyWorld_def newWorld_def noHooks_def exOptions_def)
  have vals: "canaryVersion exEnv exOptions = ''.abc1234''" "events canaryWorld = []"
    "SEMVER_patch = ''patch''"
    "fst (canary exEnv exOptions canaryWorld) = Inr (Some (Some ''1.0.1-canary.abc1234'', [exCommit]))"
    by code_simp+
  note th = canary_bump_defaults_to_patch [OF none, of exOptions]
  from th [THEN conjunct1] th [THEN conjunct2, THEN conjunct2, THEN conjunct1] ready vals none
  show ?thesis by simp
qed

section \<open>Turns of pending calls\<close>


lemma resume_settled [simp]: "settled p \<Longrightarrow> resume n p s = (p, s)"
  by (cases p) (simp_all add: resume_def)

lemma run_settled [simp]: "settled p \<Longrightarrow> run ns p s = (p, s)"
  by (induction ns) simp_all



subsection \<open>What no turn changes\<close>




















subsection \<open>What the pending calls still owe\<close>


lemma due_Resolved_iff [simp]: "due I Resolved M b \<longleftrightarrow> M = {#}"
  by (auto elim: due.cases intro: due.intros)

lemma due_Rejected [simp]: "\<not> due I (Rejected err) M b"
  by (auto elim: due.cases)









subsection \<open>Rules for the calls of \<open>async\<close> functions\<close>











section \<open>The released plugin on a canary release\<close>

















section \<open>Labels are added once by calls made one after the other\<close>

lemma resume_waiting [simp]: "resume n (Awaiting [] k) s = k s"
  by (simp add: resume_def)

lemma resume_Resolved [simp]: "resume n (Awaiting [Resolved] k) s = k s"
  by (simp add: resume_def)

lemma resume_Rejected [simp]: "resume n (Awaiting [Rejected err] k) s = (Rejected err, s)"
  by (simp add: resume_def)

lemma ready_below: "ready (Awaiting [Awaiting ps k'] k) = map ((#) 0) (ready (Awaiting ps k'))"
  by simp

lemma resume_below [simp]:
  "resume n (Awaiting [Awaiting ps k'] k) s =
     (case resume n (Awaiting ps k') s of (p, s') \<Rightarrow> (Awaiting [p] k, s'))"
proof -
  define q where "q = Awaiting ps k'"
  define paths where "paths = ready q"
  have below: "ready (Awaiting [q] k) = map ((#) 0) paths"
    unfolding q_def paths_def by (rule ready_below)
  have "resume n (Awaiting [q] k) s =
          (case resume n q s of (p, s') \<Rightarrow> (Awaiting [p] k, s'))"
  proof (cases paths)
    case Nil
    with below show ?thesis
      by (simp add: resume_def paths_def [symmetric])
  next
    case (Cons r rs)
    have "n mod length paths < length paths"
      using Cons by simp
    then have pick: "map ((#) 0) paths ! (n mod length paths) = 0 # paths ! (n mod length paths)"
      by (rule nth_map)
    obtain p t where r: "resumeAt (paths ! (n mod length paths)) q s = (p, t)"
      by (cases "resumeAt (paths ! (n mod length paths)) q s")
    have left: "resume n (Awaiting [q] k) s
                = resumeAt (map ((#) 0) paths ! (n mod length paths)) (Awaiting [q] k) s"
      unfolding resume_def below using Cons by simp
    have right: "resume n q s = resumeAt (paths ! (n mod length paths)) q s"
      unfolding resume_def paths_def [symmetric] using Cons by simp
    show ?thesis
      unfolding left right pick using r by simp
  qed
  then show ?thesis by (simp add: q_def)
qed






lemma labelledOnce_events [simp]:
  "labelledOnce l s0 (s\<lparr>events := evs\<rparr>) = labelledOnce l s0 s"
  by (simp add: labelledOnce_def)








section \<open>Issues named after the first one of a keyword\<close>

text \<open>
  Claim C1 fails on the code.  The release \<open>v1.1.0\<close> holds one commit, merged from request
  5, whose description is \<open>Fixes #10, #11\<close>.  The pattern \<open>closeIssue\<close> matches the whole
  text, and \<open>/#(\d+)/\<close> then takes the first number only: issue 10 gets the comment and the
  label, issue 11 gets neither.  After 22 turns the handler has ended.
\<close>

theorem second_issue_not_collected:
  "matchCloseIssue 0 ''Fixes #10, #11'' = [''Fixes #10, #11'']
   \<and> collectIssues (releasedMessages exEnv exCommit) = [10]
   \<and> fulfilled (fst (runAsync (replicate 22 0)
         (releasedAfterRelease exEnv defaultOptions exReleased) readyWorld))
   \<and> events (snd (runAsync (replicate 22 0)
         (releasedAfterRelease exEnv defaultOptions exReleased) readyWorld)) =
       [Git (CreateComment '':rocket: PR was released in v1.1.0 :rocket:'' 5 ''released''),
        Log LogSuccess ''Commented on PR #5'',
        Git (GetLabels 5), Git (AddLabelToPr 5 ''released''),
        Git (GetPullRequest 5), Git (GetCommitsForPR 5),
        Git (CreateComment '':rocket: Issue was released in v1.1.0 :rocket:'' 10 ''released''),
        Log LogSuccess ''Commented on PR #10'',
        Git (GetLabels 10), Git (AddLabelToPr 10 ''released'')]
   \<and> labelsOn (snd (runAsync (replicate 22 0)
         (releasedAfterRelease exEnv defaultOptions exReleased) readyWorld)) 10
       = [''released'']
   \<and> labelsOn (snd (runAsync (replicate 22 0)
         (releasedAfterRelease exEnv defaultOptions exReleased) readyWorld)) 11 = []"
  by code_simp

section \<open>Plugins are loaded after the configuration is modified\<close>

lemma applyPlugins_keeps:
  "(\<And>n. \<not> P (PluginApply n)) \<Longrightarrow> preserves (\<lambda>s. filter P (events s)) (applyPlugins ps)"
  by (induction ps) (auto intro!: preserves_intros)

lemma broadcast_keeps:
  "(\<And>n. \<not> P (Handler h n)) \<Longrightarrow> preserves (\<lambda>s. filter P (events s)) (broadcast h owners)"
  by (induction owners) (auto intro!: preserves_intros)

lemma getRepo_keeps:
  "\<not> P (Hook GetRepository) \<Longrightarrow> preserves (\<lambda>s. filter P (events s)) (getRepo c)"
  unfolding getRepo_def
  by (intro preserves_intros) simp_all

text \<open>
  Claim C3 fails on the code.  \<open>loadConfig\<close> calls the waterfall point \<open>modifyConfig\<close>
  before it loads the plugins, so on a new \<open>Auto\<close> object (no tap on \<open>modifyConfig\<close> yet)
  the call runs no handler at all, whatever the configuration and the plugins are: the
  handlers the plugins tap are registered afterwards, when \<open>beforeRun\<close> is about to fire.
\<close>

theorem loadConfig_runs_no_plugin_handler:
  assumes fresh: "modifyConfig (theHooks s) = []"
  shows "filter isConfigHandler (events (snd (loadConfig e s))) = filter isConfigHandler (events s)"
proof -
  let ?c = "(loadedConfig e)\<lparr>cfg_baseBranch := baseBranch e\<rparr>"
  let ?rest = "\<lambda>c.
          seq (modify (\<lambda>s. s\<lparr>theConfig := Some c\<rparr>))
         (seq (loadPlugins e c)
         (seq (emit (Hook BeforeRun))
         (seq (withState (\<lambda>s. broadcast BeforeRun (beforeRun (theHooks s))))
         (andThen (getRepo c) (\<lambda>repository.
            (let token = (case repository of
                            Some r \<Rightarrow> if truthy (snd (snd r)) then snd (snd r) else GH_TOKEN e
                          | None \<Rightarrow> GH_TOKEN e)
             in
             if \<not> truthy token \<or> token = Some ''undefined'' then
               seq (emit (Log LogError
                      ''No GitHub was found. Make sure it is available on process.env.GH_TOKEN.''))
                   (throw ''GitHub token not found!'')
             else if \<not> truthy (case repository of Some r \<Rightarrow> Some (fst r) | None \<Rightarrow> cfg_owner c)
                     \<or> \<not> truthy (case repository of Some r \<Rightarrow> Some (fst (snd r))
                                   | None \<Rightarrow> cfg_repo c)
             then throw ''Must set owner, repo, and GitHub token.''
             else
               seq (modify (\<lambda>s. s\<lparr>hasGit := True, hasRelease := True\<rparr>))
                   (emit (Hook OnCreateRelease))))))))"
  have rest: "preserves (\<lambda>s. filter isConfigHandler (events s)) (?rest c)" for c
    unfolding loadPlugins_def Let_def
    by (intro preserves_intros applyPlugins_keeps broadcast_keeps getRepo_keeps) simp_all
  from fresh have "loadConfig e s
      = ?rest ?c (s\<lparr>events := events s @ [LoadConfig, Hook ModifyConfig]\<rparr>)"
    by (simp add: loadConfig_def seq_def andThen_def emit_def withState_def ret_def)
  with preservesD [OF rest, of ?c "s\<lparr>events := events s @ [LoadConfig, Hook ModifyConfig]\<rparr>"]
  show ?thesis by simp
qed

theorem loadConfig_runs_no_plugin_handler_witness:
  "modifyConfig (theHooks newWorld) = []
   \<and> cfg_plugins (loadedConfig exEnv) = Some [PluginName ''released'']
   \<and> filter isConfigHandler (events (snd (loadConfig exEnv newWorld))) = []
   \<and> events (snd (loadConfig exEnv newWorld)) =
       [LoadConfig, Hook ModifyConfig, PluginApply ''Released Label'', Hook BeforeRun,
        Hook OnCreateRelease]
   \<and> map fst (modifyConfig (theHooks (snd (loadConfig exEnv newWorld)))) = [''Released Label'']
   \<and> (case theConfig (snd (loadConfig exEnv newWorld)) of
        None \<Rightarrow> None
      | Some c \<Rightarrow> cfg_labels c ''released'') = None
   \<and> cfg_labels (releasedModifyConfig ((loadedConfig exEnv)\<lparr>cfg_baseBranch := baseBranch exEnv\<rparr>))
        ''released''
      = Some (''released'', ''This issue/pull request has been released.'')"
proof -
  have fresh: "modifyConfig (theHooks newWorld) = []"
    by (simp add: newWorld_def noHooks_def)
  have start: "events newWorld = []"
    by (simp add: newWorld_def)
  have run: "cfg_plugins (loadedConfig exEnv) = Some [PluginName ''released'']
   \<and> events (snd (loadConfig exEnv newWorld)) =
       [LoadConfig, Hook ModifyConfig, PluginApply ''Released Label'', Hook BeforeRun,
        Hook OnCreateRelease]
   \<and> map fst (modifyConfig (theHooks (snd (loadConfig exEnv newWorld)))) = [''Released Label'']
   \<and> (case theConfig (snd (loadConfig exEnv newWorld)) of
        None \<Rightarrow> None
      | Some c \<Rightarrow> cfg_labels c ''released'') = None
   \<and> cfg_labels (releasedModifyConfig ((loadedConfig exEnv)\<lparr>cfg_baseBranch := baseBranch exEnv\<rparr>))
        ''released''
      = Some (''released'', ''This issue/pull request has been released.'')"
    by code_simp
  from loadConfig_runs_no_plugin_handler [OF fresh, of exEnv] start run fresh
  show ?thesis by simp
qed

theorem second_issue_not_collected_witness:
  "collectIssues (releasedMessages exEnv exCommit) = [10]
   \<and> labelsOn (snd (runAsync (replicate 22 0)
         (releasedAfterRelease exEnv defaultOptions exReleased) readyWorld)) 11 = []"
  using second_issue_not_collected by simp

end
